theory Spec2Isabelle
  imports Complex_Main "HOL-Library.Log_Nat"
begin

section \<open>Data model\<close>

text \<open>
  The tables of \<^verbatim>\<open>src/db/schema\<close>, with the columns the booking, campaign and
  purchase-order services read or write. A \<^verbatim>\<open>uuid\<close> primary key is a natural number
  drawn from a supply kept in the store (\<^verbatim>\<open>defaultRandom()\<close>). A \<^verbatim>\<open>date\<close> column holds a
  calendar day, modelled as its day number; the order of day numbers is the order of the
  dates. A \<^verbatim>\<open>decimal\<close> column holds an exact decimal, modelled as the rational it denotes.
  A JavaScript \<^verbatim>\<open>Date\<close> is its \<^verbatim>\<open>getTime()\<close>, the milliseconds since the epoch. A
  nullable column is an \<open>option\<close>. The \<^verbatim>\<open>varchar\<close>
  columns \<^verbatim>\<open>type\<close> and \<^verbatim>\<open>status\<close> are strings, as in the schema: no enumeration
  restricts them in the database.
\<close>

type_synonym uuid = nat
type_synonym date = int
type_synonym instant = int

record billboard =
  bb_id :: uuid
  bb_name :: string
  bb_type :: string
  bb_status :: string
  ratePerDay :: rat
  slotCount :: "int option"

record booking =
  bk_id :: uuid
  referenceCode :: string
  customerId :: uuid
  campaignId :: "uuid option"
  billboardId :: uuid
  slotNumber :: "int option"
  startDate :: date
  endDate :: date
  actualEndDate :: "date option"
  notionalValue :: rat
  status :: string
  creativeRef :: "string option"
  bk_notes :: "string option"
  createdBy :: "uuid option"
  updatedBy :: "uuid option"

record campaign =
  cp_id :: uuid
  cp_referenceCode :: string
  cp_name :: string
  cp_customerId :: uuid
  cp_description :: "string option"
  totalValue :: rat
  cp_startDate :: "date option"
  cp_endDate :: "date option"
  cp_createdBy :: "uuid option"
  cp_updatedBy :: "uuid option"

record purchaseOrder =
  po_id :: uuid
  poNumber :: string
  po_bookingId :: uuid
  po_actualStartDate :: date
  po_actualEndDate :: date
  po_actualValue :: rat
  adjustmentNotes :: "string option"
  po_createdBy :: "uuid option"
  po_updatedBy :: "uuid option"

datatype SequenceEntityType = SeqBooking | SeqCampaign | SeqPO | SeqInvoice

text \<open>
  The store: the four tables as lists of rows, the \<^verbatim>\<open>sequences\<close> table as an association
  list from (entity type, year) to the current value, the supply of fresh keys and the
  calendar year of the clock.
\<close>

record db =
  billboards :: "billboard list"
  bookings :: "booking list"
  campaigns :: "campaign list"
  purchaseOrders :: "purchaseOrder list"
  sequences :: "((SequenceEntityType \<times> nat) \<times> nat) list"
  nextId :: uuid
  currentYear :: nat

text \<open>Every \<^verbatim>\<open>throw new Error(...)\<close> of the services, with the values its message quotes.\<close>

datatype error =
    BillboardNotFound
  | BookingNotFound
  | NotAvailable "string list"
  | CannotEdit string
  | CannotShortClose string
  | ActualEndNotBeforeEnd
  | ActualEndBeforeStart
  | InvalidStatus
  | PurchaseOrderExists
  | CannotGeneratePO string
  | BookingOrBillboardNotFound
  | NoBillboardSelected
  | DatesRequired
  | BillboardsNotFound
  | CampaignNotAvailable "string option" "string list"

section \<open>Availability\<close>

record AvailabilityQuery =
  q_billboardId :: uuid
  q_startDate :: date
  q_endDate :: date
  q_slotNumber :: "int option"
  q_excludeBookingId :: "uuid option"

record conflictRow =
  c_id :: uuid
  c_referenceCode :: string
  c_startDate :: date
  c_endDate :: date
  c_slotNumber :: "int option"

record availability =
  available :: bool
  conflicts :: "conflictRow list"

definition conflictOf :: "booking \<Rightarrow> conflictRow" where
  "conflictOf bk = \<lparr>c_id = bk_id bk, c_referenceCode = referenceCode bk,
     c_startDate = startDate bk, c_endDate = endDate bk, c_slotNumber = slotNumber bk\<rparr>"

text \<open>
  The \<^verbatim>\<open>conditions\<close> array of \<^verbatim>\<open>checkAvailability\<close>: the three overlap conditions, then the
  exclusion of one booking when \<^verbatim>\<open>excludeBookingId\<close> is given, then the slot condition for
  a digital billboard when \<^verbatim>\<open>slotNumber\<close> is given. In SQL a NULL \<^verbatim>\<open>slot_number\<close> is equal
  to no number, so \<open>slotNumber bk = Some n\<close> is the comparison.
\<close>

definition conditions :: "billboard \<Rightarrow> AvailabilityQuery \<Rightarrow> (booking \<Rightarrow> bool) list" where
  "conditions billboard q =
     [\<lambda>bk. billboardId bk = q_billboardId q,
      \<lambda>bk. startDate bk \<le> q_endDate q,
      \<lambda>bk. endDate bk \<ge> q_startDate q]
     @ (case q_excludeBookingId q of
          Some ex \<Rightarrow> [\<lambda>bk. bk_id bk \<noteq> ex]
        | None \<Rightarrow> [])
     @ (if bb_type billboard = ''digital'' \<and> q_slotNumber q \<noteq> None
        then [\<lambda>bk. slotNumber bk = q_slotNumber q]
        else [])"

definition checkAvailability :: "db \<Rightarrow> AvailabilityQuery \<Rightarrow> error + availability" where
  "checkAvailability st q =
     (case find (\<lambda>b. bb_id b = q_billboardId q) (billboards st) of
        None \<Rightarrow> Inl BillboardNotFound
      | Some billboard \<Rightarrow>
          (let cs = map conflictOf
                      (filter (\<lambda>bk. list_all (\<lambda>c. c bk) (conditions billboard q)) (bookings st))
           in Inr \<lparr>available = (length cs = 0), conflicts = cs\<rparr>))"

section \<open>Dates, numbers and strings of the JavaScript runtime\<close>

text \<open>
  \<^verbatim>\<open>new Date('YYYY-MM-DD').getTime()\<close>: a date-only string is midnight UTC of that day.
\<close>

definition msPerDay :: int where
  "msPerDay = 1000 * 60 * 60 * 24"

definition getTime :: "date \<Rightarrow> instant" where
  "getTime d = d * msPerDay"

text \<open>
  \<^verbatim>\<open>Math.ceil((end.getTime() - start.getTime()) / (1000 * 60 * 60 * 24)) + 1\<close>, the day
  count that \<^verbatim>\<open>createBooking\<close>, \<^verbatim>\<open>createCampaign\<close> and \<^verbatim>\<open>createPurchaseOrder\<close> each
  write out, between the instants of two calendar days. These three write
  \<^verbatim>\<open>(rate * days).toFixed(2)\<close> into a \<^verbatim>\<open>decimal(14,2)\<close> column: for every product the
  column accepts (below \<open>10\<^sup>1\<^sup>2\<close>) the double product is within half a hundredth of the
  exact one, so the number stored is the exact product, which is what the model of
  these three computes. The numbers that \<^verbatim>\<open>calculateProRataValue\<close> returns are modelled
  as doubles, further down.
\<close>

definition dayCount :: "instant \<Rightarrow> instant \<Rightarrow> int" where
  "dayCount start end' = \<lceil>(of_int (end' - start) :: rat) / of_int msPerDay\<rceil> + 1"

definition digitChar :: "nat \<Rightarrow> char" where
  "digitChar n = ''0123456789'' ! n"

fun natToString :: "nat \<Rightarrow> string" where
  "natToString n =
     (if n < 10 then [digitChar n] else natToString (n div 10) @ [digitChar (n mod 10)])"

declare natToString.simps [simp del]

definition padStart :: "nat \<Rightarrow> char \<Rightarrow> string \<Rightarrow> string" where
  "padStart n c s = replicate (n - length s) c @ s"

text \<open>
  \<^verbatim>\<open>x.toFixed(2)\<close> for a finite \<open>x\<close> below \<open>10\<^sup>2\<^sup>1\<close> in magnitude: the sign of \<open>x\<close>, then
  the integer \<open>n\<close> nearest to \<open>\<bar>x\<bar> * 100\<close> (the larger one on a tie), written with its
  last two digits after the point. \<open>hundredths\<close> is that \<open>n\<close>, and \<open>fixed2\<close> the number
  the string denotes, which is what a \<^verbatim>\<open>decimal(14,2)\<close> column stores of it.
\<close>

definition hundredths :: "rat \<Rightarrow> nat" where
  "hundredths x = nat \<lfloor>\<bar>x\<bar> * 100 + 1 / 2\<rfloor>"

definition toFixed2 :: "rat \<Rightarrow> string" where
  "toFixed2 x =
     (let n = hundredths x
      in (if x < 0 then ''-'' else [])
         @ natToString (n div 100) @ ''.''
         @ [digitChar (n mod 100 div 10), digitChar (n mod 10)])"

definition fixed2 :: "rat \<Rightarrow> rat" where
  "fixed2 x = (if x < 0 then - 1 else 1) * of_nat (hundredths x) / 100"

section \<open>Sequence service\<close>

definition SEQUENCE_PREFIXES :: "SequenceEntityType \<Rightarrow> string" where
  "SEQUENCE_PREFIXES t =
     (case t of SeqBooking \<Rightarrow> ''BK'' | SeqCampaign \<Rightarrow> ''CP'' | SeqPO \<Rightarrow> ''PO''
      | SeqInvoice \<Rightarrow> ''INV'')"

text \<open>
  \<^verbatim>\<open>INSERT ... VALUES (entityType, year, 1) ON CONFLICT (entity_type, year) DO UPDATE SET
  current_value = current_value + 1 RETURNING current_value\<close>.
\<close>

fun upsertSequence ::
  "(SequenceEntityType \<times> nat) \<Rightarrow> ((SequenceEntityType \<times> nat) \<times> nat) list
   \<Rightarrow> ((SequenceEntityType \<times> nat) \<times> nat) list \<times> nat" where
  "upsertSequence k [] = ([(k, 1)], 1)"
| "upsertSequence k ((k', v) # rest) =
     (if k' = k then ((k', v + 1) # rest, v + 1)
      else (let (rest', r) = upsertSequence k rest in ((k', v) # rest', r)))"

definition getNextSequence :: "db \<Rightarrow> SequenceEntityType \<Rightarrow> string \<times> db" where
  "getNextSequence st entityType =
     (let year = currentYear st;
          prefix = SEQUENCE_PREFIXES entityType;
          (rows, current_value) = upsertSequence (entityType, year) (sequences st);
          nextValue = (if current_value = 0 then 1 else current_value);
          paddedNumber = padStart 4 (CHR ''0'') (natToString nextValue)
      in (prefix @ ''-'' @ natToString year @ ''-'' @ paddedNumber,
          st\<lparr>sequences := rows\<rparr>))"

section \<open>Booking service\<close>

text \<open>
  \<^verbatim>\<open>getBookingById\<close>: the booking row with that id, left-joined with its billboard (the
  joins with the customer and the campaign are not read by the operations below).
\<close>

definition getBookingById :: "db \<Rightarrow> uuid \<Rightarrow> (booking \<times> billboard option) option" where
  "getBookingById st i =
     (case find (\<lambda>bk. bk_id bk = i) (bookings st) of
        None \<Rightarrow> None
      | Some bk \<Rightarrow> Some (bk, find (\<lambda>b. bb_id b = billboardId bk) (billboards st)))"

record CreateBookingDto =
  d_customerId :: uuid
  d_billboardId :: uuid
  d_campaignId :: "uuid option"
  d_slotNumber :: "int option"
  d_startDate :: date
  d_endDate :: date
  d_notionalValue :: "rat option"
  d_creativeRef :: "string option"
  d_notes :: "string option"
  d_createdBy :: "uuid option"

text \<open>\<^verbatim>\<open>slotNumber || null\<close>: an absent slot and the slot 0 are both stored as NULL.\<close>

definition slotOrNull :: "int option \<Rightarrow> int option" where
  "slotOrNull s = (case s of None \<Rightarrow> None | Some n \<Rightarrow> (if n = 0 then None else Some n))"

definition createBooking ::
  "db \<Rightarrow> CreateBookingDto \<Rightarrow> (error + (booking \<times> billboard option) option) \<times> db" where
  "createBooking st data =
     (case checkAvailability st
             \<lparr>q_billboardId = d_billboardId data, q_startDate = d_startDate data,
              q_endDate = d_endDate data, q_slotNumber = d_slotNumber data,
              q_excludeBookingId = None\<rparr> of
        Inl e \<Rightarrow> (Inl e, st)
      | Inr availability \<Rightarrow>
          if \<not> available availability
          then (Inl (NotAvailable (map c_referenceCode (conflicts availability))), st)
          else
            (let notionalValue' =
                   (case d_notionalValue data of
                      Some v \<Rightarrow> Some v
                    | None \<Rightarrow>
                        (case find (\<lambda>b. bb_id b = d_billboardId data) (billboards st) of
                           Some billboard \<Rightarrow>
                             (let days = dayCount (getTime (d_startDate data))
                                           (getTime (d_endDate data));
                                  rate = ratePerDay billboard
                              in Some (fixed2 (rate * of_int days)))
                         | None \<Rightarrow> None));
                 (referenceCode', st1) = getNextSequence st SeqBooking;
                 row = \<lparr>bk_id = nextId st1,
                        referenceCode = referenceCode',
                        customerId = d_customerId data,
                        campaignId = d_campaignId data,
                        billboardId = d_billboardId data,
                        slotNumber = slotOrNull (d_slotNumber data),
                        startDate = d_startDate data,
                        endDate = d_endDate data,
                        actualEndDate = None,
                        notionalValue = (case notionalValue' of Some v \<Rightarrow> v | None \<Rightarrow> 0),
                        status = ''created'',
                        creativeRef = d_creativeRef data,
                        bk_notes = d_notes data,
                        createdBy = d_createdBy data,
                        updatedBy = d_createdBy data\<rparr>;
                 st2 = st1\<lparr>bookings := bookings st1 @ [row], nextId := nextId st1 + 1\<rparr>
             in (Inr (getBookingById st2 (bk_id row)), st2)))"

text \<open>
  In \<^verbatim>\<open>UpdateBookingDto\<close> every field is optional (\<open>None\<close> is \<^verbatim>\<open>undefined\<close>);
  \<^verbatim>\<open>campaignId\<close> and \<^verbatim>\<open>slotNumber\<close> may also be given as \<^verbatim>\<open>null\<close> (\<open>Some None\<close>).
\<close>

record UpdateBookingDto =
  u_customerId :: "uuid option"
  u_billboardId :: "uuid option"
  u_campaignId :: "uuid option option"
  u_slotNumber :: "int option option"
  u_startDate :: "date option"
  u_endDate :: "date option"
  u_notionalValue :: "rat option"
  u_status :: "string option"
  u_creativeRef :: "string option"
  u_notes :: "string option"
  u_updatedBy :: "uuid option"

definition nonEditableStatuses :: "string list" where
  "nonEditableStatuses = [''completed'', ''po_generated'', ''invoiced'']"

definition orElse :: "'a option \<Rightarrow> 'a \<Rightarrow> 'a" where
  "orElse x d = (case x of Some v \<Rightarrow> v | None \<Rightarrow> d)"

definition updateWhere :: "('a \<Rightarrow> bool) \<Rightarrow> ('a \<Rightarrow> 'a) \<Rightarrow> 'a list \<Rightarrow> 'a list" where
  "updateWhere P f rows = map (\<lambda>r. if P r then f r else r) rows"

definition applyUpdate :: "UpdateBookingDto \<Rightarrow> booking \<Rightarrow> booking" where
  "applyUpdate data bk =
     bk\<lparr>updatedBy := (case u_updatedBy data of Some u \<Rightarrow> Some u | None \<Rightarrow> updatedBy bk),
        customerId := orElse (u_customerId data) (customerId bk),
        billboardId := orElse (u_billboardId data) (billboardId bk),
        campaignId := orElse (u_campaignId data) (campaignId bk),
        slotNumber := orElse (u_slotNumber data) (slotNumber bk),
        startDate := orElse (u_startDate data) (startDate bk),
        endDate := orElse (u_endDate data) (endDate bk),
        notionalValue := orElse (u_notionalValue data) (notionalValue bk),
        status := orElse (u_status data) (status bk),
        creativeRef := (case u_creativeRef data of Some c \<Rightarrow> Some c | None \<Rightarrow> creativeRef bk),
        bk_notes := (case u_notes data of Some n \<Rightarrow> Some n | None \<Rightarrow> bk_notes bk)\<rparr>"

definition updateBooking ::
  "db \<Rightarrow> uuid \<Rightarrow> UpdateBookingDto \<Rightarrow> (error + (booking \<times> billboard option) option) \<times> db" where
  "updateBooking st i data =
     (case getBookingById st i of
        None \<Rightarrow> (Inl BookingNotFound, st)
      | Some (existingBooking, _) \<Rightarrow>
          if status existingBooking \<in> set nonEditableStatuses
          then (Inl (CannotEdit (status existingBooking)), st)
          else
            (let checked =
                   (if u_startDate data \<noteq> None \<or> u_endDate data \<noteq> None
                       \<or> u_billboardId data \<noteq> None \<or> u_slotNumber data \<noteq> None
                    then
                      (case checkAvailability st
                              \<lparr>q_billboardId = orElse (u_billboardId data) (billboardId existingBooking),
                               q_startDate = orElse (u_startDate data) (startDate existingBooking),
                               q_endDate = orElse (u_endDate data) (endDate existingBooking),
                               q_slotNumber = orElse (u_slotNumber data) (slotNumber existingBooking),
                               q_excludeBookingId = Some i\<rparr> of
                         Inl e \<Rightarrow> Some e
                       | Inr availability \<Rightarrow>
                           if \<not> available availability
                           then Some (NotAvailable (map c_referenceCode (conflicts availability)))
                           else None)
                    else None)
             in case checked of
                  Some e \<Rightarrow> (Inl e, st)
                | None \<Rightarrow>
                    (let st1 = st\<lparr>bookings :=
                                 updateWhere (\<lambda>bk. bk_id bk = i) (applyUpdate data) (bookings st)\<rparr>
                     in (Inr (getBookingById st1 i), st1))))"

definition validStatuses :: "string list" where
  "validStatuses =
     [''created'', ''confirmed'', ''active'', ''completed'', ''po_generated'', ''invoiced'']"

text \<open>
  \<^verbatim>\<open>updateBookingStatus\<close> returns the first updated row (\<^verbatim>\<open>undefined\<close> when no row has the
  id, without an error).
\<close>

definition updateBookingStatus ::
  "db \<Rightarrow> uuid \<Rightarrow> string \<Rightarrow> uuid option \<Rightarrow> (error + booking option) \<times> db" where
  "updateBookingStatus st i status' updatedBy' =
     (if status' \<notin> set validStatuses then (Inl InvalidStatus, st)
      else
        (let st1 = st\<lparr>bookings :=
                     updateWhere (\<lambda>bk. bk_id bk = i)
                       (\<lambda>bk. bk\<lparr>status := status',
                                 updatedBy := (case updatedBy' of Some u \<Rightarrow> Some u
                                               | None \<Rightarrow> updatedBy bk)\<rparr>)
                       (bookings st)\<rparr>
         in (Inr (find (\<lambda>bk. bk_id bk = i) (bookings st1)), st1)))"

definition shortCloseStatuses :: "string list" where
  "shortCloseStatuses = [''created'', ''confirmed'', ''active'']"

definition shortCloseNotes :: "string option \<Rightarrow> string \<Rightarrow> string" where
  "shortCloseNotes old reason =
     (case old of
        None \<Rightarrow> ''Short Closed: '' @ reason
      | Some n \<Rightarrow>
          if n = [] then ''Short Closed: '' @ reason
          else n @ [CHR 0x0A, CHR 0x0A] @ ''Short Closed: '' @ reason)"

definition shortCloseBooking ::
  "db \<Rightarrow> uuid \<Rightarrow> date \<Rightarrow> string \<Rightarrow> uuid option
   \<Rightarrow> (error + (booking \<times> billboard option) option) \<times> db" where
  "shortCloseBooking st i actualEndDate' reason updatedBy' =
     (case getBookingById st i of
        None \<Rightarrow> (Inl BookingNotFound, st)
      | Some (booking, _) \<Rightarrow>
          if status booking \<notin> set shortCloseStatuses
          then (Inl (CannotShortClose (status booking)), st)
          else
            (let originalEndDate = getTime (endDate booking);
                 newEndDate = getTime actualEndDate';
                 startDate' = getTime (startDate booking)
             in if newEndDate \<ge> originalEndDate then (Inl ActualEndNotBeforeEnd, st)
                else if newEndDate < startDate' then (Inl ActualEndBeforeStart, st)
                else
                  (let st1 = st\<lparr>bookings :=
                               updateWhere (\<lambda>bk. bk_id bk = i)
                                 (\<lambda>bk. bk\<lparr>actualEndDate := Some actualEndDate',
                                           status := ''completed'',
                                           bk_notes := Some (shortCloseNotes (bk_notes booking) reason),
                                           updatedBy := (case updatedBy' of Some u \<Rightarrow> Some u
                                                         | None \<Rightarrow> updatedBy bk)\<rparr>)
                                 (bookings st)\<rparr>
                   in (Inr (getBookingById st1 i), st1))))"

section \<open>Purchase-order service\<close>

record CreatePurchaseOrderDto =
  p_bookingId :: uuid
  p_actualStartDate :: date
  p_actualEndDate :: date
  p_actualValue :: "rat option"
  p_adjustmentNotes :: "string option"
  p_createdBy :: "uuid option"

definition getPurchaseOrderById :: "db \<Rightarrow> uuid \<Rightarrow> purchaseOrder option" where
  "getPurchaseOrderById st i = find (\<lambda>p. po_id p = i) (purchaseOrders st)"

definition getPurchaseOrderByBookingId :: "db \<Rightarrow> uuid \<Rightarrow> purchaseOrder option" where
  "getPurchaseOrderByBookingId st bookingId = find (\<lambda>p. po_bookingId p = bookingId) (purchaseOrders st)"

definition poStatuses :: "string list" where
  "poStatuses = [''completed'', ''confirmed'', ''active'']"

definition createPurchaseOrder ::
  "db \<Rightarrow> CreatePurchaseOrderDto \<Rightarrow> (error + purchaseOrder option) \<times> db" where
  "createPurchaseOrder st data =
     (case getBookingById st (p_bookingId data) of
        None \<Rightarrow> (Inl BookingNotFound, st)
      | Some (booking, billboard) \<Rightarrow>
          if getPurchaseOrderByBookingId st (p_bookingId data) \<noteq> None
          then (Inl PurchaseOrderExists, st)
          else if status booking \<notin> set poStatuses
          then (Inl (CannotGeneratePO (status booking)), st)
          else
            (let actualValue' =
                   (case p_actualValue data of
                      Some v \<Rightarrow> Some v
                    | None \<Rightarrow>
                        (case billboard of
                           Some bb \<Rightarrow>
                             (let actualDays' = dayCount (getTime (p_actualStartDate data))
                                                  (getTime (p_actualEndDate data));
                                  rate = ratePerDay bb
                              in Some (fixed2 (rate * of_int actualDays')))
                         | None \<Rightarrow> None));
                 (poNumber', st1) = getNextSequence st SeqPO;
                 row = \<lparr>po_id = nextId st1,
                        poNumber = poNumber',
                        po_bookingId = p_bookingId data,
                        po_actualStartDate = p_actualStartDate data,
                        po_actualEndDate = p_actualEndDate data,
                        po_actualValue = orElse actualValue' 0,
                        adjustmentNotes = p_adjustmentNotes data,
                        po_createdBy = p_createdBy data,
                        po_updatedBy = p_createdBy data\<rparr>;
                 st2 = st1\<lparr>purchaseOrders := purchaseOrders st1 @ [row], nextId := nextId st1 + 1\<rparr>
             in case updateBookingStatus st2 (p_bookingId data) ''po_generated'' (p_createdBy data) of
                  (Inl e, st3) \<Rightarrow> (Inl e, st3)
                | (Inr _, st3) \<Rightarrow> (Inr (getPurchaseOrderById st3 (po_id row)), st3)))"

text \<open>
  The numbers of \<^verbatim>\<open>calculateProRataValue\<close> are JavaScript numbers, IEEE 754 doubles. A
  finite double is modelled as the rational it is equal to, beside the two infinities and
  NaN. The two zeros are one value: no decimal column holds a negative zero, and the sign
  of a zero reaches no result of the function (\<^verbatim>\<open>toFixed\<close> writes both as \<^verbatim>\<open>0.00\<close>).
\<close>

datatype jsnumber = Finite rat | PosInfinity | NegInfinity | NaN

text \<open>
  The binary exponent of a non-zero rational \<open>x\<close>: the \<open>e\<close> with \<open>2\<^sup>e \<le> \<bar>x\<bar> < 2\<^sup>e\<^sup>+\<^sup>1\<close>, from
  the bit lengths of its numerator and denominator.
\<close>

definition exponentOf :: "rat \<Rightarrow> int" where
  "exponentOf x =
     (let (p, q) = quotient_of \<bar>x\<bar>;
          k = bitlen p - bitlen q
      in if 2 powi k \<le> \<bar>x\<bar> then k else k - 1)"

text \<open>The nearest integer, the even one of the two when \<open>q\<close> lies half way.\<close>

definition roundHalfEven :: "rat \<Rightarrow> int" where
  "roundHalfEven q =
     (let f = \<lfloor>q\<rfloor>; r = q - of_int f
      in if r < 1 / 2 then f else if r > 1 / 2 then f + 1
         else if even f then f else f + 1)"

text \<open>
  The double nearest to a real number, ties to even, as every arithmetic operation and
  every conversion of a numeral delivers it: \<open>n\<close> units of \<open>2\<^sup>e\<^sup>-\<^sup>5\<^sup>2\<close>, where \<open>e\<close> is the
  exponent of \<open>x\<close>, not below -1022 (subnormal numbers), and \<open>n \<le> 2\<^sup>5\<^sup>3\<close> the integer
  nearest to \<open>\<bar>x\<bar> / 2\<^sup>e\<^sup>-\<^sup>5\<^sup>2\<close>. The result is an infinity when it reaches \<open>2\<^sup>1\<^sup>0\<^sup>2\<^sup>4\<close>, that
  is when \<open>e > 1023\<close>, or \<open>e = 1023\<close> and \<open>n = 2\<^sup>5\<^sup>3\<close>.
\<close>

definition roundToDouble :: "rat \<Rightarrow> jsnumber" where
  "roundToDouble x =
     (if x = 0 then Finite 0
      else
        (let e = max (exponentOf x) (- 1022);
             ulp = 2 powi (e - 52);
             n = roundHalfEven (\<bar>x\<bar> / ulp)
         in if e > 1023 \<or> (e = 1023 \<and> n \<ge> 2 ^ 53)
            then (if x > 0 then PosInfinity else NegInfinity)
            else Finite (if x > 0 then of_int n * ulp else - (of_int n * ulp))))"

text \<open>\<^verbatim>\<open>parseFloat\<close> of the text of a decimal column.\<close>

definition parseFloat :: "rat \<Rightarrow> jsnumber" where
  "parseFloat v = roundToDouble v"


fun jsNegate :: "jsnumber \<Rightarrow> jsnumber" where
  "jsNegate (Finite x) = Finite (- x)"
| "jsNegate PosInfinity = NegInfinity"
| "jsNegate NegInfinity = PosInfinity"
| "jsNegate NaN = NaN"

fun jsPlus :: "jsnumber \<Rightarrow> jsnumber \<Rightarrow> jsnumber" where
  "jsPlus NaN b = NaN"
| "jsPlus a NaN = NaN"
| "jsPlus PosInfinity NegInfinity = NaN"
| "jsPlus NegInfinity PosInfinity = NaN"
| "jsPlus PosInfinity b = PosInfinity"
| "jsPlus NegInfinity b = NegInfinity"
| "jsPlus a PosInfinity = PosInfinity"
| "jsPlus a NegInfinity = NegInfinity"
| "jsPlus (Finite x) (Finite y) = roundToDouble (x + y)"

definition jsMinus :: "jsnumber \<Rightarrow> jsnumber \<Rightarrow> jsnumber" where
  "jsMinus a b = jsPlus a (jsNegate b)"

text \<open>The infinity of the sign of a non-zero finite factor or divisor.\<close>

definition signedInfinity :: "bool \<Rightarrow> jsnumber" where
  "signedInfinity positive = (if positive then PosInfinity else NegInfinity)"

fun jsTimes :: "jsnumber \<Rightarrow> jsnumber \<Rightarrow> jsnumber" where
  "jsTimes NaN b = NaN"
| "jsTimes a NaN = NaN"
| "jsTimes PosInfinity PosInfinity = PosInfinity"
| "jsTimes PosInfinity NegInfinity = NegInfinity"
| "jsTimes NegInfinity PosInfinity = NegInfinity"
| "jsTimes NegInfinity NegInfinity = PosInfinity"
| "jsTimes PosInfinity (Finite y) = (if y = 0 then NaN else signedInfinity (y > 0))"
| "jsTimes NegInfinity (Finite y) = (if y = 0 then NaN else signedInfinity (y < 0))"
| "jsTimes (Finite x) PosInfinity = (if x = 0 then NaN else signedInfinity (x > 0))"
| "jsTimes (Finite x) NegInfinity = (if x = 0 then NaN else signedInfinity (x < 0))"
| "jsTimes (Finite x) (Finite y) = roundToDouble (x * y)"

fun jsDivide :: "jsnumber \<Rightarrow> jsnumber \<Rightarrow> jsnumber" where
  "jsDivide NaN b = NaN"
| "jsDivide a NaN = NaN"
| "jsDivide PosInfinity (Finite y) = signedInfinity (y \<ge> 0)"
| "jsDivide NegInfinity (Finite y) = signedInfinity (y < 0)"
| "jsDivide PosInfinity b = NaN"
| "jsDivide NegInfinity b = NaN"
| "jsDivide (Finite x) PosInfinity = Finite 0"
| "jsDivide (Finite x) NegInfinity = Finite 0"
| "jsDivide (Finite x) (Finite y) =
     (if y = 0 then (if x = 0 then NaN else signedInfinity (x > 0))
      else roundToDouble (x / y))"


text \<open>
  \<^verbatim>\<open>x.toFixed(2)\<close>: the name of a value that is not finite; for a finite value from
  \<open>10\<^sup>2\<^sup>1\<close> on, the sign and what the runtime's \<^verbatim>\<open>Number::toString\<close> writes for the
  magnitude (exponent notation; that function is a parameter of the model); below,
  the two-decimal rendering.
\<close>

definition toFixed :: "(rat \<Rightarrow> string) \<Rightarrow> jsnumber \<Rightarrow> string" where
  "toFixed numberToString x =
     (case x of
        Finite v \<Rightarrow>
          (if \<bar>v\<bar> \<ge> 10 ^ 21 then (if v < 0 then ''-'' else []) @ numberToString \<bar>v\<bar>
           else toFixed2 v)
      | NaN \<Rightarrow> ''NaN''
      | PosInfinity \<Rightarrow> ''Infinity''
      | NegInfinity \<Rightarrow> ''-Infinity'')"



section \<open>Campaign service\<close>

record BillboardSelection =
  s_billboardId :: uuid
  s_slotNumber :: "int option"

text \<open>
  \<^verbatim>\<open>startDate\<close> and \<^verbatim>\<open>endDate\<close> are \<open>None\<close> when the request leaves them out or empty,
  which \<^verbatim>\<open>createCampaign\<close> tests; an absent \<^verbatim>\<open>billboards\<close> array is the empty list.
\<close>

record CreateCampaignDto =
  cd_name :: string
  cd_customerId :: uuid
  cd_description :: "string option"
  cd_startDate :: "date option"
  cd_endDate :: "date option"
  cd_billboards :: "BillboardSelection list"
  cd_createdBy :: "uuid option"

definition getCampaignById :: "db \<Rightarrow> uuid \<Rightarrow> campaign option" where
  "getCampaignById st i = find (\<lambda>c. cp_id c = i) (campaigns st)"


text \<open>The first loop of \<^verbatim>\<open>createCampaign\<close>: the error of the first failing check, if any.\<close>

fun checkSelections ::
  "db \<Rightarrow> billboard list \<Rightarrow> date \<Rightarrow> date \<Rightarrow> BillboardSelection list \<Rightarrow> error option" where
  "checkSelections st billboardDetails s e [] = None"
| "checkSelections st billboardDetails s e (selection # rest) =
     (case checkAvailability st
             \<lparr>q_billboardId = s_billboardId selection, q_startDate = s, q_endDate = e,
              q_slotNumber = s_slotNumber selection, q_excludeBookingId = None\<rparr> of
        Inl err \<Rightarrow> Some err
      | Inr availability \<Rightarrow>
          if \<not> available availability
          then Some (CampaignNotAvailable
                       (map_option bb_name
                          (find (\<lambda>b. bb_id b = s_billboardId selection) billboardDetails))
                       (map c_referenceCode (conflicts availability)))
          else checkSelections st billboardDetails s e rest)"

text \<open>The second loop: one booking per selection, the store and the running total threaded.\<close>

fun createBookings ::
  "CreateCampaignDto \<Rightarrow> uuid \<Rightarrow> billboard list \<Rightarrow> date \<Rightarrow> date
   \<Rightarrow> BillboardSelection list \<Rightarrow> db \<times> rat \<Rightarrow> db \<times> rat" where
  "createBookings data campaignId' billboardDetails s e [] (st, totalValue') = (st, totalValue')"
| "createBookings data campaignId' billboardDetails s e (selection # rest) (st, totalValue') =
     (case find (\<lambda>b. bb_id b = s_billboardId selection) billboardDetails of
        None \<Rightarrow> createBookings data campaignId' billboardDetails s e rest (st, totalValue')
      | Some billboard \<Rightarrow>
          (let days = dayCount (getTime s) (getTime e);
               rate = ratePerDay billboard;
               notionalValue' = fixed2 (rate * of_int days);
               (bookingRefCode, st1) = getNextSequence st SeqBooking;
               row = \<lparr>bk_id = nextId st1,
                      referenceCode = bookingRefCode,
                      customerId = cd_customerId data,
                      campaignId = Some campaignId',
                      billboardId = s_billboardId selection,
                      slotNumber = slotOrNull (s_slotNumber selection),
                      startDate = s,
                      endDate = e,
                      actualEndDate = None,
                      notionalValue = notionalValue',
                      status = ''created'',
                      creativeRef = None,
                      bk_notes = None,
                      createdBy = cd_createdBy data,
                      updatedBy = cd_createdBy data\<rparr>;
               st2 = st1\<lparr>bookings := bookings st1 @ [row], nextId := nextId st1 + 1\<rparr>
           in createBookings data campaignId' billboardDetails s e rest
                (st2, totalValue' + notionalValue')))"

definition createCampaign :: "db \<Rightarrow> CreateCampaignDto \<Rightarrow> (error + campaign option) \<times> db" where
  "createCampaign st data =
     (if cd_billboards data = [] then (Inl NoBillboardSelected, st)
      else
        (case (cd_startDate data, cd_endDate data) of
           (Some s, Some e) \<Rightarrow>
             (let billboardIds = map s_billboardId (cd_billboards data);
                  billboardDetails = filter (\<lambda>b. bb_id b \<in> set billboardIds) (billboards st)
              in if length billboardDetails \<noteq> length billboardIds
                 then (Inl BillboardsNotFound, st)
                 else
                   (case checkSelections st billboardDetails s e (cd_billboards data) of
                      Some err \<Rightarrow> (Inl err, st)
                    | None \<Rightarrow>
                        (let (referenceCode', st1) = getNextSequence st SeqCampaign;
                             campaign = \<lparr>cp_id = nextId st1,
                                         cp_referenceCode = referenceCode',
                                         cp_name = cd_name data,
                                         cp_customerId = cd_customerId data,
                                         cp_description = cd_description data,
                                         totalValue = 0,
                                         cp_startDate = Some s,
                                         cp_endDate = Some e,
                                         cp_createdBy = cd_createdBy data,
                                         cp_updatedBy = cd_createdBy data\<rparr>;
                             st2 = st1\<lparr>campaigns := campaigns st1 @ [campaign],
                                       nextId := nextId st1 + 1\<rparr>;
                             (st3, totalValue') =
                               createBookings data (cp_id campaign) billboardDetails s e
                                 (cd_billboards data) (st2, 0);
                             st4 = st3\<lparr>campaigns :=
                                         updateWhere (\<lambda>c. cp_id c = cp_id campaign)
                                           (\<lambda>c. c\<lparr>totalValue := fixed2 totalValue'\<rparr>)
                                           (campaigns st3)\<rparr>
                         in (Inr (getCampaignById st4 (cp_id campaign)), st4))))
         | _ \<Rightarrow> (Inl DatesRequired, st)))"

section \<open>Dashboard service\<close>

text \<open>
  The query that \<^verbatim>\<open>getOccupancyRates\<close> runs for each billboard: the bookings of the
  billboard that overlap the range, with \<^verbatim>\<open>status NOT IN ('cancelled')\<close>.
\<close>

definition billboardBookings :: "db \<Rightarrow> uuid \<Rightarrow> date \<Rightarrow> date \<Rightarrow> booking list" where
  "billboardBookings st billboardId' startDate' endDate' =
     filter (\<lambda>bk. billboardId bk = billboardId' \<and> startDate bk \<le> endDate'
                  \<and> endDate bk \<ge> startDate' \<and> status bk \<notin> set [''cancelled''])
       (bookings st)"

section \<open>Reading a decimal numeral\<close>



section \<open>A sample store\<close>

text \<open>
  A static billboard X and a digital billboard Y with three slots, and a few bookings in
  July and August 2024 (2024-07-01 is day 19905). The theorems below are tried on it.
\<close>

definition billboardX :: billboard where
  "billboardX = \<lparr>bb_id = 1, bb_name = ''X'', bb_type = ''static'', bb_status = ''active'',
     ratePerDay = 1000, slotCount = None\<rparr>"

definition billboardY :: billboard where
  "billboardY = \<lparr>bb_id = 2, bb_name = ''Y'', bb_type = ''digital'', bb_status = ''active'',
     ratePerDay = 500, slotCount = Some 3\<rparr>"

definition mkBooking ::
  "uuid \<Rightarrow> string \<Rightarrow> uuid \<Rightarrow> int option \<Rightarrow> date \<Rightarrow> date \<Rightarrow> rat \<Rightarrow> string \<Rightarrow> booking" where
  "mkBooking i ref billboardId' slot s e v status' =
     \<lparr>bk_id = i, referenceCode = ref, customerId = 7, campaignId = None,
      billboardId = billboardId', slotNumber = slot, startDate = s, endDate = e,
      actualEndDate = None, notionalValue = v, status = status', creativeRef = None,
      bk_notes = None, createdBy = None, updatedBy = None\<rparr>"

text \<open>On X: 2024-07-01..2024-07-10, created; slot 2 is recorded although X is static.\<close>

definition bookingA :: booking where
  "bookingA = mkBooking 10 ''BK-2024-0001'' 1 (Some 2) 19905 19914 10000 ''created''"

text \<open>On Y, slot 1: 2024-07-01..2024-07-10, confirmed.\<close>

definition bookingB :: booking where
  "bookingB = mkBooking 11 ''BK-2024-0002'' 2 (Some 1) 19905 19914 5000 ''confirmed''"

text \<open>On Y, no slot: 2024-07-01..2024-07-10, created.\<close>

definition bookingC :: booking where
  "bookingC = mkBooking 12 ''BK-2024-0003'' 2 None 19905 19914 5000 ''created''"

text \<open>On X: 2024-08-01..2024-08-10, invoiced, with its purchase order.\<close>

definition bookingD :: booking where
  "bookingD = mkBooking 13 ''BK-2024-0004'' 1 None 19936 19945 10000 ''invoiced''"

definition purchaseOrderD :: purchaseOrder where
  "purchaseOrderD = \<lparr>po_id = 20, poNumber = ''PO-2024-0001'', po_bookingId = 13,
     po_actualStartDate = 19936, po_actualEndDate = 19945, po_actualValue = 10000,
     adjustmentNotes = None, po_createdBy = None, po_updatedBy = None\<rparr>"

definition sampleDb :: db where
  "sampleDb = \<lparr>billboards = [billboardX, billboardY],
     bookings = [bookingA, bookingB, bookingC, bookingD],
     campaigns = [],
     purchaseOrders = [purchaseOrderD],
     sequences = [((SeqBooking, 2024), 4), ((SeqPO, 2024), 1)],
     nextId = 100,
     currentYear = 2024\<rparr>"

definition mkQuery :: "uuid \<Rightarrow> date \<Rightarrow> date \<Rightarrow> int option \<Rightarrow> AvailabilityQuery" where
  "mkQuery billboardId' s e slot =
     \<lparr>q_billboardId = billboardId', q_startDate = s, q_endDate = e, q_slotNumber = slot,
      q_excludeBookingId = None\<rparr>"

text \<open>Requests on Y for 2024-08-01..2024-08-10 without a slot.\<close>

definition bookingDtoY :: CreateBookingDto where
  "bookingDtoY = \<lparr>d_customerId = 7, d_billboardId = 2, d_campaignId = None,
     d_slotNumber = None, d_startDate = 19936, d_endDate = 19945, d_notionalValue = None,
     d_creativeRef = None, d_notes = None, d_createdBy = None\<rparr>"

definition campaignDtoY :: CreateCampaignDto where
  "campaignDtoY = \<lparr>cd_name = ''August'', cd_customerId = 7, cd_description = None,
     cd_startDate = Some 19936, cd_endDate = Some 19945,
     cd_billboards = [\<lparr>s_billboardId = 2, s_slotNumber = None\<rparr>], cd_createdBy = None\<rparr>"

text \<open>An update that changes nothing; the requests below set one field of it.\<close>

definition emptyUpdate :: UpdateBookingDto where
  "emptyUpdate = \<lparr>u_customerId = None, u_billboardId = None, u_campaignId = None,
     u_slotNumber = None, u_startDate = None, u_endDate = None, u_notionalValue = None,
     u_status = None, u_creativeRef = None, u_notes = None, u_updatedBy = None\<rparr>"

text \<open>A purchase-order request for a booking, actual period 2024-07-01..2024-07-07.\<close>

definition poDto :: "uuid \<Rightarrow> CreatePurchaseOrderDto" where
  "poDto bookingId = \<lparr>p_bookingId = bookingId, p_actualStartDate = 19905,
     p_actualEndDate = 19911, p_actualValue = None, p_adjustmentNotes = None,
     p_createdBy = None\<rparr>"


section \<open>The availability check\<close>

text \<open>
  What a booking must satisfy to pass every condition of the query, without and with the
  slot condition.
\<close>

lemma passes_unscoped:
  "bb_type b \<noteq> ''digital'' \<or> q_slotNumber q = None \<Longrightarrow>
   list_all (\<lambda>c. c bk) (conditions b q) \<longleftrightarrow>
     (billboardId bk = q_billboardId q \<and> q_excludeBookingId q \<noteq> Some (bk_id bk)
      \<and> q_startDate q \<le> endDate bk \<and> q_endDate q \<ge> startDate bk)"
  by (auto simp: conditions_def split: option.splits)

lemma passes_scoped:
  "bb_type b = ''digital'' \<Longrightarrow> q_slotNumber q = Some n \<Longrightarrow>
   list_all (\<lambda>c. c bk) (conditions b q) \<longleftrightarrow>
     (billboardId bk = q_billboardId q \<and> q_excludeBookingId q \<noteq> Some (bk_id bk)
      \<and> q_startDate q \<le> endDate bk \<and> q_endDate q \<ge> startDate bk
      \<and> slotNumber bk = Some n)"
  by (auto simp: conditions_def split: option.splits)

lemma checkAvailability_found:
  "find (\<lambda>b. bb_id b = q_billboardId q) (billboards st) = Some b \<Longrightarrow>
   checkAvailability st q =
     Inr \<lparr>available = (filter (\<lambda>bk. list_all (\<lambda>c. c bk) (conditions b q)) (bookings st) = []),
          conflicts = map conflictOf
            (filter (\<lambda>bk. list_all (\<lambda>c. c bk) (conditions b q)) (bookings st))\<rparr>"
  by (simp add: checkAvailability_def Let_def)

text \<open>
  C1. For an existing billboard of type static and any candidate range \<open>[s, e]\<close>,
  \<^verbatim>\<open>checkAvailability\<close> returns one conflict row for each booking on that billboard that
  is not excluded and satisfies \<open>s \<le> e'\<close> and \<open>e \<ge> s'\<close>, and no other row: the
  row carries the id, the reference code, the two dates and the slot number of that
  booking. It reports \<open>available = false\<close> if and only if there is such a booking. The
  slot number of the query and of the booking play no part; touching endpoints conflict.
\<close>

theorem checkAvailability_static:
  assumes "find (\<lambda>b. bb_id b = q_billboardId q) (billboards st) = Some b"
    and "bb_type b = ''static''"
  shows "\<exists>r. checkAvailability st q = Inr r
     \<and> conflicts r
         = map (\<lambda>bk. \<lparr>c_id = bk_id bk, c_referenceCode = referenceCode bk,
                      c_startDate = startDate bk, c_endDate = endDate bk,
                      c_slotNumber = slotNumber bk\<rparr>)
             (filter (\<lambda>bk. billboardId bk = q_billboardId q
                           \<and> q_excludeBookingId q \<noteq> Some (bk_id bk)
                           \<and> q_startDate q \<le> endDate bk \<and> q_endDate q \<ge> startDate bk)
                (bookings st))
     \<and> (\<not> available r \<longleftrightarrow>
          (\<exists>bk \<in> set (bookings st).
             billboardId bk = q_billboardId q \<and> q_excludeBookingId q \<noteq> Some (bk_id bk)
             \<and> q_startDate q \<le> endDate bk \<and> q_endDate q \<ge> startDate bk))"
proof -
  have nd: "bb_type b \<noteq> ''digital'' \<or> q_slotNumber q = None"
    using assms(2) by simp
  have row: "conflictOf = (\<lambda>bk. \<lparr>c_id = bk_id bk, c_referenceCode = referenceCode bk,
                      c_startDate = startDate bk, c_endDate = endDate bk,
                      c_slotNumber = slotNumber bk\<rparr>)"
    by (rule ext) (simp add: conflictOf_def)
  show ?thesis
    unfolding checkAvailability_found [OF assms(1)] row
    by (auto simp add: passes_unscoped [OF nd] filter_empty_conv)
qed

text \<open>The definitions of the sample store, for evaluating the operations on it.\<close>

lemmas sample_defs = sampleDb_def billboardX_def billboardY_def bookingA_def bookingB_def
  bookingC_def bookingD_def mkBooking_def mkQuery_def purchaseOrderD_def

text \<open>
  On the sample store: a request on X for 2024-07-10..2024-07-16, slot 1, meets booking A
  (slot 2, ending 2024-07-10) on the shared day.
\<close>

theorem checkAvailability_static_witness:
  "find (\<lambda>b. bb_id b = q_billboardId (mkQuery 1 19914 19920 (Some 1))) (billboards sampleDb)
     = Some billboardX
   \<and> bb_type billboardX = ''static''
   \<and> (\<exists>r. checkAvailability sampleDb (mkQuery 1 19914 19920 (Some 1)) = Inr r
          \<and> conflicts r = [\<lparr>c_id = 10, c_referenceCode = ''BK-2024-0001'',
                               c_startDate = 19905, c_endDate = 19914,
                               c_slotNumber = Some 2\<rparr>]
          \<and> \<not> available r)"
proof -
  have h1: "find (\<lambda>b. bb_id b = q_billboardId (mkQuery 1 19914 19920 (Some 1))) (billboards sampleDb)
     = Some billboardX"
    by (simp add: sample_defs)
  have h2: "bb_type billboardX = ''static''"
    by (simp add: billboardX_def)
  from checkAvailability_static [OF h1 h2] obtain r where
    r: "checkAvailability sampleDb (mkQuery 1 19914 19920 (Some 1)) = Inr r"
    and c: "conflicts r
         = map (\<lambda>bk. \<lparr>c_id = bk_id bk, c_referenceCode = referenceCode bk,
                      c_startDate = startDate bk, c_endDate = endDate bk,
                      c_slotNumber = slotNumber bk\<rparr>)
          (filter (\<lambda>bk. billboardId bk = q_billboardId (mkQuery 1 19914 19920 (Some 1))
                        \<and> q_excludeBookingId (mkQuery 1 19914 19920 (Some 1)) \<noteq> Some (bk_id bk)
                        \<and> q_startDate (mkQuery 1 19914 19920 (Some 1)) \<le> endDate bk
                        \<and> q_endDate (mkQuery 1 19914 19920 (Some 1)) \<ge> startDate bk)
             (bookings sampleDb))"
    and a: "\<not> available r \<longleftrightarrow>
          (\<exists>bk \<in> set (bookings sampleDb).
             billboardId bk = q_billboardId (mkQuery 1 19914 19920 (Some 1))
             \<and> q_excludeBookingId (mkQuery 1 19914 19920 (Some 1)) \<noteq> Some (bk_id bk)
             \<and> q_startDate (mkQuery 1 19914 19920 (Some 1)) \<le> endDate bk
             \<and> q_endDate (mkQuery 1 19914 19920 (Some 1)) \<ge> startDate bk)"
    by blast
  have c': "conflicts r = [\<lparr>c_id = 10, c_referenceCode = ''BK-2024-0001'',
                               c_startDate = 19905, c_endDate = 19914,
                               c_slotNumber = Some 2\<rparr>]"
    unfolding c by (simp add: sample_defs)
  have a': "\<not> available r"
    unfolding a by (simp add: sample_defs)
  show ?thesis using h1 h2 r c' a' by blast
qed

text \<open>
  C2. For an existing billboard of type digital: with a \<^verbatim>\<open>slotNumber\<close>, the conflicts are
  one row for each overlapping, non-excluded booking on that billboard that carries the
  same slot number, and every returned row carries that slot number, so an overlapping
  booking on another slot is not returned and does not make the result unavailable;
  without a \<^verbatim>\<open>slotNumber\<close>, every overlapping, non-excluded booking on the billboard has
  its row, whatever its slot. A row carries the id, the reference code, the two dates and
  the slot number of its booking. The result is available exactly when there is no
  conflict.
\<close>

theorem checkAvailability_digital:
  assumes "find (\<lambda>b. bb_id b = q_billboardId q) (billboards st) = Some b"
    and "bb_type b = ''digital''"
  shows "\<exists>r. checkAvailability st q = Inr r
     \<and> available r = (conflicts r = [])
     \<and> (\<forall>n. q_slotNumber q = Some n \<longrightarrow>
           conflicts r
             = map (\<lambda>bk. \<lparr>c_id = bk_id bk, c_referenceCode = referenceCode bk,
                      c_startDate = startDate bk, c_endDate = endDate bk,
                      c_slotNumber = slotNumber bk\<rparr>)
                 (filter (\<lambda>bk. billboardId bk = q_billboardId q
                               \<and> q_excludeBookingId q \<noteq> Some (bk_id bk)
                               \<and> q_startDate q \<le> endDate bk \<and> q_endDate q \<ge> startDate bk
                               \<and> slotNumber bk = Some n)
                    (bookings st))
           \<and> (\<forall>c \<in> set (conflicts r). c_slotNumber c = Some n))
     \<and> (q_slotNumber q = None \<longrightarrow>
           conflicts r
             = map (\<lambda>bk. \<lparr>c_id = bk_id bk, c_referenceCode = referenceCode bk,
                      c_startDate = startDate bk, c_endDate = endDate bk,
                      c_slotNumber = slotNumber bk\<rparr>)
                 (filter (\<lambda>bk. billboardId bk = q_billboardId q
                               \<and> q_excludeBookingId q \<noteq> Some (bk_id bk)
                               \<and> q_startDate q \<le> endDate bk \<and> q_endDate q \<ge> startDate bk)
                    (bookings st)))"
proof (cases "q_slotNumber q")
  case None
  then have nd: "bb_type b \<noteq> ''digital'' \<or> q_slotNumber q = None" by simp
  have row: "conflictOf = (\<lambda>bk. \<lparr>c_id = bk_id bk, c_referenceCode = referenceCode bk,
                      c_startDate = startDate bk, c_endDate = endDate bk,
                      c_slotNumber = slotNumber bk\<rparr>)"
    by (rule ext) (simp add: conflictOf_def)
  show ?thesis
    unfolding checkAvailability_found [OF assms(1)] row
    using None by (simp add: passes_unscoped [OF nd])
next
  case (Some n)
  have row: "conflictOf = (\<lambda>bk. \<lparr>c_id = bk_id bk, c_referenceCode = referenceCode bk,
                      c_startDate = startDate bk, c_endDate = endDate bk,
                      c_slotNumber = slotNumber bk\<rparr>)"
    by (rule ext) (simp add: conflictOf_def)
  show ?thesis
    unfolding checkAvailability_found [OF assms(1)] row
    using Some by (auto simp add: passes_scoped [OF assms(2) Some])
qed

text \<open>
  On the sample store: Y is booked on slot 1 and once without a slot over 2024-07-01..10;
  slot 2 is free over these dates, the check on slot 1 returns the row of booking B only,
  and the check without a slot returns the rows of both bookings.
\<close>

theorem checkAvailability_digital_witness:
  "find (\<lambda>b. bb_id b = q_billboardId (mkQuery 2 19905 19914 (Some 2))) (billboards sampleDb)
     = Some billboardY
   \<and> find (\<lambda>b. bb_id b = q_billboardId (mkQuery 2 19905 19914 (Some 1))) (billboards sampleDb)
     = Some billboardY
   \<and> find (\<lambda>b. bb_id b = q_billboardId (mkQuery 2 19905 19914 None)) (billboards sampleDb)
     = Some billboardY
   \<and> bb_type billboardY = ''digital''
   \<and> (\<exists>r. checkAvailability sampleDb (mkQuery 2 19905 19914 (Some 2)) = Inr r
          \<and> available r \<and> conflicts r = [])
   \<and> (\<exists>r. checkAvailability sampleDb (mkQuery 2 19905 19914 (Some 1)) = Inr r
          \<and> \<not> available r
          \<and> conflicts r = [\<lparr>c_id = 11, c_referenceCode = ''BK-2024-0002'',
                               c_startDate = 19905, c_endDate = 19914,
                               c_slotNumber = Some 1\<rparr>])
   \<and> (\<exists>r. checkAvailability sampleDb (mkQuery 2 19905 19914 None) = Inr r
          \<and> \<not> available r
          \<and> conflicts r = [\<lparr>c_id = 11, c_referenceCode = ''BK-2024-0002'',
                               c_startDate = 19905, c_endDate = 19914,
                               c_slotNumber = Some 1\<rparr>,
                             \<lparr>c_id = 12, c_referenceCode = ''BK-2024-0003'',
                               c_startDate = 19905, c_endDate = 19914,
                               c_slotNumber = None\<rparr>])"
proof -
  have d: "bb_type billboardY = ''digital''"
    by (simp add: billboardY_def)
  have f: "find (\<lambda>b. bb_id b = q_billboardId (mkQuery 2 19905 19914 s)) (billboards sampleDb)
     = Some billboardY" for s
    by (simp add: sample_defs)
  from checkAvailability_digital [OF f d, of "Some 2"] obtain r where
    r: "checkAvailability sampleDb (mkQuery 2 19905 19914 (Some 2)) = Inr r"
    and a: "available r = (conflicts r = [])"
    and c: "conflicts r
             = map (\<lambda>bk. \<lparr>c_id = bk_id bk, c_referenceCode = referenceCode bk,
                      c_startDate = startDate bk, c_endDate = endDate bk,
                      c_slotNumber = slotNumber bk\<rparr>)
             (filter (\<lambda>bk. billboardId bk = 2 \<and> 19905 \<le> endDate bk \<and> 19914 \<ge> startDate bk
                           \<and> slotNumber bk = Some 2)
                (bookings sampleDb))"
    by (auto simp: mkQuery_def)
  have c2: "conflicts r = []"
    unfolding c by (simp add: sample_defs)
  from checkAvailability_digital [OF f d, of "Some 1"] obtain r1 where
    r1: "checkAvailability sampleDb (mkQuery 2 19905 19914 (Some 1)) = Inr r1"
    and a1: "available r1 = (conflicts r1 = [])"
    and c1: "conflicts r1
             = map (\<lambda>bk. \<lparr>c_id = bk_id bk, c_referenceCode = referenceCode bk,
                      c_startDate = startDate bk, c_endDate = endDate bk,
                      c_slotNumber = slotNumber bk\<rparr>)
             (filter (\<lambda>bk. billboardId bk = 2 \<and> 19905 \<le> endDate bk \<and> 19914 \<ge> startDate bk
                           \<and> slotNumber bk = Some 1)
                (bookings sampleDb))"
    by (auto simp: mkQuery_def)
  have c1': "conflicts r1 = [\<lparr>c_id = 11, c_referenceCode = ''BK-2024-0002'',
                               c_startDate = 19905, c_endDate = 19914,
                               c_slotNumber = Some 1\<rparr>]"
    unfolding c1 by (simp add: sample_defs)
  from checkAvailability_digital [OF f d, of None] obtain r' where
    r': "checkAvailability sampleDb (mkQuery 2 19905 19914 None) = Inr r'"
    and a': "available r' = (conflicts r' = [])"
    and c': "conflicts r'
             = map (\<lambda>bk. \<lparr>c_id = bk_id bk, c_referenceCode = referenceCode bk,
                      c_startDate = startDate bk, c_endDate = endDate bk,
                      c_slotNumber = slotNumber bk\<rparr>)
             (filter (\<lambda>bk. billboardId bk = 2 \<and> 19905 \<le> endDate bk \<and> 19914 \<ge> startDate bk)
                (bookings sampleDb))"
    by (auto simp: mkQuery_def)
  have c0: "conflicts r' = [\<lparr>c_id = 11, c_referenceCode = ''BK-2024-0002'',
                               c_startDate = 19905, c_endDate = 19914,
                               c_slotNumber = Some 1\<rparr>,
                             \<lparr>c_id = 12, c_referenceCode = ''BK-2024-0003'',
                               c_startDate = 19905, c_endDate = 19914,
                               c_slotNumber = None\<rparr>]"
    unfolding c' by (simp add: sample_defs)
  show ?thesis using f d r a c2 r1 a1 c1' r' a' c0 by simp
qed

text \<open>No condition of the query and no column of a conflict row reads the status.\<close>

lemma conditions_ignore_status:
  "list_all (\<lambda>c. c (bk\<lparr>status := s\<rparr>)) (conditions b q) = list_all (\<lambda>c. c bk) (conditions b q)"
  by (auto simp: conditions_def split: option.splits)

lemma conflictOf_ignores_status: "conflictOf (bk\<lparr>status := s\<rparr>) = conflictOf bk"
  by (simp add: conflictOf_def)

lemma checkAvailability_restatus:
  "checkAvailability (st\<lparr>bookings := map (\<lambda>x. x\<lparr>status := f x\<rparr>) (bookings st)\<rparr>) q
     = checkAvailability st q"
  by (simp add: checkAvailability_def Let_def filter_map o_def conditions_ignore_status
      conflictOf_ignores_status split: option.splits)

text \<open>
  C9. \<^verbatim>\<open>checkAvailability\<close> applies no filter on the booking status. A booking on the
  billboard that overlaps the range, is not the excluded one and, in a slot-scoped check
  on a digital billboard, carries the requested slot, is among the conflicts and makes
  the result unavailable whatever its status is (created, confirmed, active, completed,
  po_generated, invoiced or any other string): the result is the same after the statuses
  of the bookings are rewritten in any way.
\<close>

theorem checkAvailability_no_status_filter:
  assumes "find (\<lambda>b. bb_id b = q_billboardId q) (billboards st) = Some b"
    and "bk \<in> set (bookings st)"
    and "billboardId bk = q_billboardId q"
    and "q_excludeBookingId q \<noteq> Some (bk_id bk)"
    and "q_startDate q \<le> endDate bk" and "q_endDate q \<ge> startDate bk"
    and "bb_type b = ''digital'' \<and> q_slotNumber q \<noteq> None \<longrightarrow> slotNumber bk = q_slotNumber q"
  shows "\<exists>r. checkAvailability st q = Inr r
     \<and> conflictOf bk \<in> set (conflicts r) \<and> \<not> available r
     \<and> checkAvailability (st\<lparr>bookings := map (\<lambda>x. x\<lparr>status := f x\<rparr>) (bookings st)\<rparr>) q
         = Inr r"
proof -
  have p: "list_all (\<lambda>c. c bk) (conditions b q)"
  proof (cases "bb_type b = ''digital'' \<and> q_slotNumber q \<noteq> None")
    case True
    then obtain n where n: "q_slotNumber q = Some n" by auto
    with True assms show ?thesis by (simp add: passes_scoped [of b q n])
  next
    case False
    then have "bb_type b \<noteq> ''digital'' \<or> q_slotNumber q = None" by simp
    from passes_unscoped [OF this] assms show ?thesis by simp
  qed
  with assms(2) have m: "bk \<in> set (filter (\<lambda>bk. list_all (\<lambda>c. c bk) (conditions b q)) (bookings st))"
    by simp
  have ne: "filter (\<lambda>bk. list_all (\<lambda>c. c bk) (conditions b q)) (bookings st) \<noteq> []"
    using p assms(2) by (auto simp: filter_empty_conv)
  show ?thesis
    unfolding checkAvailability_restatus checkAvailability_found [OF assms(1)]
    using m ne by simp
qed

text \<open>
  On the sample store: booking D is invoiced and still blocks X in August 2024.
\<close>

theorem checkAvailability_no_status_filter_witness:
  "find (\<lambda>b. bb_id b = q_billboardId (mkQuery 1 19940 19950 None)) (billboards sampleDb)
     = Some billboardX
   \<and> bookingD \<in> set (bookings sampleDb) \<and> status bookingD = ''invoiced''
   \<and> (\<exists>r. checkAvailability sampleDb (mkQuery 1 19940 19950 None) = Inr r
          \<and> conflictOf bookingD \<in> set (conflicts r) \<and> \<not> available r)"
proof -
  have h1: "find (\<lambda>b. bb_id b = q_billboardId (mkQuery 1 19940 19950 None)) (billboards sampleDb)
     = Some billboardX"
    by (simp add: sample_defs)
  have h2: "bookingD \<in> set (bookings sampleDb)"
    by (simp add: sampleDb_def)
  have h3: "billboardId bookingD = q_billboardId (mkQuery 1 19940 19950 None)"
    and h4: "q_excludeBookingId (mkQuery 1 19940 19950 None) \<noteq> Some (bk_id bookingD)"
    and h5: "q_startDate (mkQuery 1 19940 19950 None) \<le> endDate bookingD"
    and h6: "q_endDate (mkQuery 1 19940 19950 None) \<ge> startDate bookingD"
    and h7: "bb_type billboardX = ''digital'' \<and> q_slotNumber (mkQuery 1 19940 19950 None) \<noteq> None
       \<longrightarrow> slotNumber bookingD = q_slotNumber (mkQuery 1 19940 19950 None)"
    and s: "status bookingD = ''invoiced''"
    by (simp_all add: sample_defs)
  from checkAvailability_no_status_filter [OF h1 h2 h3 h4 h5 h6 h7]
  show ?thesis using h1 h2 s by blast
qed

section \<open>What the writing operations leave alone\<close>

text \<open>
  Drawing a reference code changes the \<^verbatim>\<open>sequences\<close> table only; a successful
  \<^verbatim>\<open>createBooking\<close> or \<^verbatim>\<open>createCampaign\<close> appends booking rows whose slot is the
  requested one (or NULL) and leaves the billboards alone.
\<close>

lemma getNextSequence_frame:
  "getNextSequence st t = (c, st') \<Longrightarrow>
     billboards st' = billboards st \<and> bookings st' = bookings st
     \<and> campaigns st' = campaigns st \<and> purchaseOrders st' = purchaseOrders st
     \<and> nextId st' = nextId st \<and> currentYear st' = currentYear st"
  by (auto simp: getNextSequence_def Let_def split: prod.splits)

lemma createBooking_success:
  assumes "createBooking st d = (Inr x, st')"
  shows "billboards st' = billboards st
     \<and> (\<exists>row. bookings st' = bookings st @ [row]
            \<and> slotNumber row = slotOrNull (d_slotNumber d)
            \<and> billboardId row = d_billboardId d
            \<and> startDate row = d_startDate d \<and> endDate row = d_endDate d)"
  using assms
  by (auto simp: createBooking_def Let_def split: sum.splits if_splits prod.splits
      dest!: getNextSequence_frame)

lemma createBookings_step:
  assumes "find (\<lambda>b. bb_id b = s_billboardId sel) details = Some billboard"
    and "getNextSequence st SeqBooking = (ref, st1)"
  shows "\<exists>row. slotNumber row = slotOrNull (s_slotNumber sel)
     \<and> (\<exists>t2. createBookings data cid details s e (sel # rest) (st, t)
           = createBookings data cid details s e rest
               (st1\<lparr>bookings := bookings st1 @ [row], nextId := nextId st1 + 1\<rparr>, t2))"
  using assms
  apply (simp add: Let_def)
  apply (rule exI, rule conjI [rotated], rule exI, rule refl)
  apply simp
  done

lemma createBookings_frame:
  "createBookings data cid details s e sels (st, t) = (st', t') \<Longrightarrow>
     billboards st' = billboards st \<and> campaigns st' = campaigns st
     \<and> (\<exists>rows. bookings st' = bookings st @ rows
            \<and> (\<forall>row \<in> set rows. \<exists>sel \<in> set sels.
                  slotNumber row = slotOrNull (s_slotNumber sel)))"
proof (induction sels arbitrary: st t)
  case Nil
  then show ?case by simp
next
  case (Cons sel rest)
  show ?case
  proof (cases "find (\<lambda>b. bb_id b = s_billboardId sel) details")
    case None
    with Cons.prems have "createBookings data cid details s e rest (st, t) = (st', t')"
      by simp
    from Cons.IH [OF this] show ?thesis by auto
  next
    case (Some billboard)
    obtain ref st1 where g: "getNextSequence st SeqBooking = (ref, st1)"
      by (cases "getNextSequence st SeqBooking")
    note fr = getNextSequence_frame [OF g]
    from createBookings_step [OF Some g, of data cid s e rest t] obtain row t2 where
      row: "slotNumber row = slotOrNull (s_slotNumber sel)"
      and step: "createBookings data cid details s e (sel # rest) (st, t)
           = createBookings data cid details s e rest
               (st1\<lparr>bookings := bookings st1 @ [row], nextId := nextId st1 + 1\<rparr>, t2)"
      by blast
    define st2 where "st2 = st1\<lparr>bookings := bookings st1 @ [row], nextId := nextId st1 + 1\<rparr>"
    from step Cons.prems have rec: "createBookings data cid details s e rest (st2, t2) = (st', t')"
      by (simp add: st2_def)
    note st2 = st2_def
    from Cons.IH [OF rec] obtain rows where
      b: "billboards st' = billboards st2" "campaigns st' = campaigns st2"
      and rows: "bookings st' = bookings st2 @ rows"
        "\<forall>row \<in> set rows. \<exists>sel \<in> set rest. slotNumber row = slotOrNull (s_slotNumber sel)"
      by blast
    have "bookings st' = bookings st @ (row # rows)"
      using rows(1) st2 fr by simp
    moreover have "\<forall>r \<in> set (row # rows). \<exists>sel' \<in> set (sel # rest).
        slotNumber r = slotOrNull (s_slotNumber sel')"
      using rows(2) row by auto
    ultimately show ?thesis using b st2 fr by (intro conjI exI [of _ "row # rows"]) auto
  qed
qed

lemma createCampaign_success:
  assumes "createCampaign st data = (Inr x, st')"
  shows "billboards st' = billboards st
     \<and> (\<exists>rows. bookings st' = bookings st @ rows
            \<and> (\<forall>row \<in> set rows. \<exists>sel \<in> set (cd_billboards data).
                  slotNumber row = slotOrNull (s_slotNumber sel)))"
  using assms
  by (auto simp: createCampaign_def Let_def split: if_splits option.splits prod.splits
      dest!: createBookings_frame getNextSequence_frame)


lemma scoped_filter_append:
  assumes "bb_type b = ''digital''" and "q_slotNumber q = Some n"
    and "\<forall>row \<in> set rows. slotNumber row = None"
  shows "filter (\<lambda>bk. list_all (\<lambda>c. c bk) (conditions b q)) (xs @ rows)
     = filter (\<lambda>bk. list_all (\<lambda>c. c bk) (conditions b q)) xs"
  using assms(3) by (simp add: passes_scoped [OF assms(1,2)])

lemma scoped_filter_nonnull:
  assumes "bb_type b = ''digital''" and "q_slotNumber q = Some n"
  shows "filter (\<lambda>bk. list_all (\<lambda>c. c bk) (conditions b q)) (filter (\<lambda>bk. slotNumber bk \<noteq> None) xs)
     = filter (\<lambda>bk. list_all (\<lambda>c. c bk) (conditions b q)) xs"
  by (auto simp: passes_scoped [OF assms] intro: filter_cong)

text \<open>
  C10. In a slot-scoped check on a digital billboard (a \<^verbatim>\<open>slotNumber\<close> is given), no
  booking whose stored slot is NULL is reported: every conflict row carries a slot, and
  the result is the one obtained with all NULL-slot bookings removed from the store.
  \<^verbatim>\<open>createBooking\<close> without a slot and \<^verbatim>\<open>createCampaign\<close> with selections without
  slots store NULL, so after either has succeeded every slot-scoped check on a digital
  billboard, over whatever dates, returns what it returned before.
\<close>

theorem slot_check_ignores_null_slot:
  assumes "find (\<lambda>b. bb_id b = q_billboardId q) (billboards st) = Some b"
    and "bb_type b = ''digital''"
    and "q_slotNumber q = Some n"
  shows "(\<exists>r. checkAvailability st q = Inr r
            \<and> (\<forall>c \<in> set (conflicts r). c_slotNumber c \<noteq> None))
     \<and> checkAvailability (st\<lparr>bookings := filter (\<lambda>bk. slotNumber bk \<noteq> None) (bookings st)\<rparr>) q
         = checkAvailability st q
     \<and> (\<forall>d x st'. createBooking st d = (Inr x, st') \<and> d_slotNumber d = None
           \<longrightarrow> checkAvailability st' q = checkAvailability st q)
     \<and> (\<forall>data x st'. createCampaign st data = (Inr x, st')
             \<and> (\<forall>sel \<in> set (cd_billboards data). s_slotNumber sel = None)
           \<longrightarrow> checkAvailability st' q = checkAvailability st q)"
proof (intro conjI allI impI)
  show "\<exists>r. checkAvailability st q = Inr r \<and> (\<forall>c \<in> set (conflicts r). c_slotNumber c \<noteq> None)"
    unfolding checkAvailability_found [OF assms(1)]
    by (auto simp: passes_scoped [OF assms(2,3)] conflictOf_def)
next
  have f: "find (\<lambda>b. bb_id b = q_billboardId q)
      (billboards (st\<lparr>bookings := filter (\<lambda>bk. slotNumber bk \<noteq> None) (bookings st)\<rparr>)) = Some b"
    using assms(1) by simp
  have e: "bookings (st\<lparr>bookings := filter (\<lambda>bk. slotNumber bk \<noteq> None) (bookings st)\<rparr>)
      = filter (\<lambda>bk. slotNumber bk \<noteq> None) (bookings st)"
    by simp
  show "checkAvailability (st\<lparr>bookings := filter (\<lambda>bk. slotNumber bk \<noteq> None) (bookings st)\<rparr>) q
      = checkAvailability st q"
    unfolding checkAvailability_found [OF assms(1)] checkAvailability_found [OF f] e
      scoped_filter_nonnull [OF assms(2,3)] ..
next
  fix d x st'
  assume a: "createBooking st d = (Inr x, st') \<and> d_slotNumber d = None"
  from createBooking_success [of st d x st'] a obtain row where
    b: "billboards st' = billboards st" and r: "bookings st' = bookings st @ [row]"
    and n: "slotNumber row = None"
    by (auto simp: slotOrNull_def)
  have f: "find (\<lambda>b. bb_id b = q_billboardId q) (billboards st') = Some b"
    using assms(1) b by simp
  have e: "filter (\<lambda>bk. list_all (\<lambda>c. c bk) (conditions b q)) (bookings st @ [row])
      = filter (\<lambda>bk. list_all (\<lambda>c. c bk) (conditions b q)) (bookings st)"
    by (rule scoped_filter_append [OF assms(2,3)]) (simp add: n)
  show "checkAvailability st' q = checkAvailability st q"
    unfolding checkAvailability_found [OF assms(1)] checkAvailability_found [OF f] r e ..
next
  fix data x st'
  assume a: "createCampaign st data = (Inr x, st')
     \<and> (\<forall>sel \<in> set (cd_billboards data). s_slotNumber sel = None)"
  from createCampaign_success [of st data x st'] a obtain rows where
    b: "billboards st' = billboards st" and r: "bookings st' = bookings st @ rows"
    and n: "\<forall>row \<in> set rows. slotNumber row = None"
    by (fastforce simp: slotOrNull_def)
  have f: "find (\<lambda>b. bb_id b = q_billboardId q) (billboards st') = Some b"
    using assms(1) b by simp
  have e: "filter (\<lambda>bk. list_all (\<lambda>c. c bk) (conditions b q)) (bookings st @ rows)
      = filter (\<lambda>bk. list_all (\<lambda>c. c bk) (conditions b q)) (bookings st)"
    by (rule scoped_filter_append [OF assms(2,3)]) (rule n)
  show "checkAvailability st' q = checkAvailability st q"
    unfolding checkAvailability_found [OF assms(1)] checkAvailability_found [OF f] r e ..
qed


text \<open>
  On the sample store: Y is free in August 2024. After a booking without a slot, or a
  campaign selecting Y without a slot, for 2024-08-01..2024-08-10, slot 1 of Y is still
  reported available over the same dates.
\<close>

theorem slot_check_ignores_null_slot_witness:
  "find (\<lambda>b. bb_id b = q_billboardId (mkQuery 2 19936 19945 (Some 1))) (billboards sampleDb)
     = Some billboardY
   \<and> bb_type billboardY = ''digital''
   \<and> checkAvailability sampleDb (mkQuery 2 19936 19945 (Some 1))
       = Inr \<lparr>available = True, conflicts = []\<rparr>
   \<and> (\<exists>x st'. createBooking sampleDb bookingDtoY = (Inr x, st')
          \<and> (\<exists>bk \<in> set (bookings st'). billboardId bk = 2 \<and> slotNumber bk = None
                \<and> startDate bk = 19936 \<and> endDate bk = 19945)
          \<and> checkAvailability st' (mkQuery 2 19936 19945 (Some 1))
              = Inr \<lparr>available = True, conflicts = []\<rparr>)
   \<and> (\<exists>x st'. createCampaign sampleDb campaignDtoY = (Inr x, st')
          \<and> (\<exists>bk \<in> set (bookings st'). billboardId bk = 2 \<and> slotNumber bk = None
                \<and> startDate bk = 19936 \<and> endDate bk = 19945)
          \<and> checkAvailability st' (mkQuery 2 19936 19945 (Some 1))
              = Inr \<lparr>available = True, conflicts = []\<rparr>)"
proof -
  have h1: "find (\<lambda>b. bb_id b = q_billboardId (mkQuery 2 19936 19945 (Some 1))) (billboards sampleDb)
     = Some billboardY"
    by (simp add: sample_defs)
  have h2: "bb_type billboardY = ''digital''"
    by (simp add: billboardY_def)
  have h3: "q_slotNumber (mkQuery 2 19936 19945 (Some 1)) = Some 1"
    by (simp add: mkQuery_def)
  note t = slot_check_ignores_null_slot [OF h1 h2 h3]
  have before: "checkAvailability sampleDb (mkQuery 2 19936 19945 (Some 1))
       = Inr \<lparr>available = True, conflicts = []\<rparr>"
    by (simp add: checkAvailability_def conditions_def sample_defs)
  obtain x st' where c: "createBooking sampleDb bookingDtoY = (Inr x, st')"
    and b: "\<exists>bk \<in> set (bookings st'). billboardId bk = 2 \<and> slotNumber bk = None
                \<and> startDate bk = 19936 \<and> endDate bk = 19945"
    by (simp add: createBooking_def checkAvailability_def conditions_def sample_defs
        bookingDtoY_def getNextSequence_def slotOrNull_def Let_def split: prod.splits)
  have n: "d_slotNumber bookingDtoY = None"
    by (simp add: bookingDtoY_def)
  from t c n have after: "checkAvailability st' (mkQuery 2 19936 19945 (Some 1))
      = checkAvailability sampleDb (mkQuery 2 19936 19945 (Some 1))"
    by blast
  obtain y st'' where c': "createCampaign sampleDb campaignDtoY = (Inr y, st'')"
    and b': "\<exists>bk \<in> set (bookings st''). billboardId bk = 2 \<and> slotNumber bk = None
                \<and> startDate bk = 19936 \<and> endDate bk = 19945"
    by (simp add: createCampaign_def checkAvailability_def conditions_def sample_defs
        campaignDtoY_def getNextSequence_def slotOrNull_def Let_def split: prod.splits)
  have n': "\<forall>sel \<in> set (cd_billboards campaignDtoY). s_slotNumber sel = None"
    by (simp add: campaignDtoY_def)
  from t c' n' have after': "checkAvailability st'' (mkQuery 2 19936 19945 (Some 1))
      = checkAvailability sampleDb (mkQuery 2 19936 19945 (Some 1))"
    by blast
  show ?thesis using h1 h2 before c b after c' b' after' by auto
qed

section \<open>Cancelled bookings\<close>

text \<open>
  C4. "Cancelled bookings never count as conflicts" does not hold of \<^verbatim>\<open>checkAvailability\<close>:
  its query has no condition on the status. \<^verbatim>\<open>updateBooking\<close> stores any status string
  it is given, so booking A of the sample store can be set to \<^verbatim>\<open>cancelled\<close>; the check on
  X over A's dates then still reports A as a conflict and X as unavailable, while the
  occupancy query of the dashboard, which excludes cancelled bookings, finds X free.
\<close>

theorem checkAvailability_counts_cancelled:
  "\<exists>x st'. updateBooking sampleDb 10 (emptyUpdate\<lparr>u_status := Some ''cancelled''\<rparr>) = (Inr x, st')
     \<and> bookings st' = [bookingA\<lparr>status := ''cancelled''\<rparr>, bookingB, bookingC, bookingD]
     \<and> checkAvailability st' (mkQuery 1 19905 19914 None)
         = Inr \<lparr>available = False, conflicts = [conflictOf bookingA]\<rparr>
     \<and> billboardBookings st' 1 19905 19914 = []"
  by (simp add: updateBooking_def getBookingById_def nonEditableStatuses_def emptyUpdate_def
      updateWhere_def applyUpdate_def orElse_def checkAvailability_def conditions_def
      billboardBookings_def conflictOf_def sample_defs)

text \<open>
  In particular the update to \<^verbatim>\<open>cancelled\<close> is accepted, and X is then reported
  unavailable over the dates of the cancelled booking.
\<close>

theorem checkAvailability_counts_cancelled_witness:
  "\<exists>x st'. updateBooking sampleDb 10 (emptyUpdate\<lparr>u_status := Some ''cancelled''\<rparr>) = (Inr x, st')
     \<and> (\<exists>r. checkAvailability st' (mkQuery 1 19905 19914 None) = Inr r \<and> \<not> available r)"
proof -
  from checkAvailability_counts_cancelled obtain x st' where
    u: "updateBooking sampleDb 10 (emptyUpdate\<lparr>u_status := Some ''cancelled''\<rparr>) = (Inr x, st')"
    and c: "checkAvailability st' (mkQuery 1 19905 19914 None)
         = Inr \<lparr>available = False, conflicts = [conflictOf bookingA]\<rparr>"
    by blast
  have "\<not> available \<lparr>available = False, conflicts = [conflictOf bookingA]\<rparr>"
    by simp
  with u c show ?thesis by blast
qed

section \<open>Booking lifecycle\<close>

text \<open>The instants of two calendar days are ordered as the days are.\<close>

lemma getTime_le [simp]: "getTime a \<le> getTime b \<longleftrightarrow> a \<le> b"
  by (simp add: getTime_def msPerDay_def)

lemma getTime_less [simp]: "getTime a < getTime b \<longleftrightarrow> a < b"
  by (simp add: getTime_def msPerDay_def)

text \<open>
  C5. For a booking whose current status is completed, po_generated or invoiced,
  \<^verbatim>\<open>updateBooking\<close> fails for every payload with the error "Cannot edit booking in ...
  status. Booking is finalized.", and the store, the booking row included, is unchanged.
\<close>

theorem updateBooking_finalized:
  assumes "getBookingById st i = Some (bk, bb)"
    and "status bk \<in> {''completed'', ''po_generated'', ''invoiced''}"
  shows "updateBooking st i dto = (Inl (CannotEdit (status bk)), st)"
  using assms by (auto simp: updateBooking_def nonEditableStatuses_def)

text \<open>On the sample store: booking D is invoiced; a change of its notes is refused.\<close>

theorem updateBooking_finalized_witness:
  "getBookingById sampleDb 13 = Some (bookingD, Some billboardX)
   \<and> status bookingD \<in> {''completed'', ''po_generated'', ''invoiced''}
   \<and> updateBooking sampleDb 13 (emptyUpdate\<lparr>u_notes := Some ''late change''\<rparr>)
       = (Inl (CannotEdit ''invoiced''), sampleDb)"
proof -
  have h1: "getBookingById sampleDb 13 = Some (bookingD, Some billboardX)"
    by (simp add: getBookingById_def sample_defs)
  have h2: "status bookingD \<in> {''completed'', ''po_generated'', ''invoiced''}"
    and s: "status bookingD = ''invoiced''"
    by (simp_all add: sample_defs)
  from updateBooking_finalized [OF h1 h2, of "emptyUpdate\<lparr>u_notes := Some ''late change''\<rparr>"]
  show ?thesis using h1 h2 s by simp
qed

text \<open>
  C6. \<^verbatim>\<open>shortCloseBooking\<close> on an existing booking fails when the status is not one of
  created, confirmed, active; it fails when \<open>actualEndDate \<ge> endDate\<close>, so also when the two
  are equal; it fails when \<open>actualEndDate < startDate\<close>. Each failure is one of the three
  errors of the function and leaves the store, the booking included, unchanged.
\<close>

theorem shortCloseBooking_rejects:
  assumes "getBookingById st i = Some (bk, bb)"
    and "status bk \<notin> {''created'', ''confirmed'', ''active''}
         \<or> actualEnd \<ge> endDate bk \<or> actualEnd < startDate bk"
  shows "\<exists>e. shortCloseBooking st i actualEnd reason u = (Inl e, st)
     \<and> e \<in> {CannotShortClose (status bk), ActualEndNotBeforeEnd, ActualEndBeforeStart}"
  using assms by (auto simp: shortCloseBooking_def shortCloseStatuses_def Let_def)

text \<open>
  On the sample store: booking D is invoiced and cannot be short-closed; booking A
  (2024-07-01..2024-07-10, created) cannot be short-closed on 2024-07-10, its end date,
  nor on 2024-06-30, before its start.
\<close>

theorem shortCloseBooking_rejects_witness:
  "getBookingById sampleDb 10 = Some (bookingA, Some billboardX)
   \<and> getBookingById sampleDb 13 = Some (bookingD, Some billboardX)
   \<and> status bookingD \<notin> {''created'', ''confirmed'', ''active''}
   \<and> endDate bookingA = 19914 \<and> startDate bookingA = 19905
   \<and> (\<exists>e. shortCloseBooking sampleDb 13 19940 ''stop'' None = (Inl e, sampleDb))
   \<and> (\<exists>e. shortCloseBooking sampleDb 10 19914 ''stop'' None = (Inl e, sampleDb))
   \<and> (\<exists>e. shortCloseBooking sampleDb 10 19904 ''stop'' None = (Inl e, sampleDb))"
proof -
  have a: "getBookingById sampleDb 10 = Some (bookingA, Some billboardX)"
    and d: "getBookingById sampleDb 13 = Some (bookingD, Some billboardX)"
    by (simp_all add: getBookingById_def sample_defs)
  have sd: "status bookingD \<notin> {''created'', ''confirmed'', ''active''}"
    and ea: "endDate bookingA = 19914" and sa: "startDate bookingA = 19905"
    by (simp_all add: sample_defs)
  have h1: "status bookingD \<notin> {''created'', ''confirmed'', ''active''}
         \<or> 19940 \<ge> endDate bookingD \<or> 19940 < startDate bookingD"
    using sd by simp
  have h2: "status bookingA \<notin> {''created'', ''confirmed'', ''active''}
         \<or> 19914 \<ge> endDate bookingA \<or> 19914 < startDate bookingA"
    using ea by simp
  have h3: "status bookingA \<notin> {''created'', ''confirmed'', ''active''}
         \<or> 19904 \<ge> endDate bookingA \<or> 19904 < startDate bookingA"
    using sa by simp
  from shortCloseBooking_rejects [OF d h1, of "''stop''" None]
    shortCloseBooking_rejects [OF a h2, of "''stop''" None]
    shortCloseBooking_rejects [OF a h3, of "''stop''" None]
  show ?thesis using a d sd ea sa by blast
qed

section \<open>Purchase orders\<close>

text \<open>
  An update by key that keeps the key: looking the key up afterwards finds the updated
  row.
\<close>

lemma find_updateWhere:
  assumes "\<And>x. key (f x) = key x"
  shows "find (\<lambda>x. key x = i) (updateWhere (\<lambda>x. key x = i) f xs)
     = map_option f (find (\<lambda>x. key x = i) xs)"
  by (induction xs) (auto simp: updateWhere_def assms)

lemma updateBookingStatus_sets:
  assumes "updateBookingStatus st i status' u = (Inr r, st')"
    and "find (\<lambda>bk. bk_id bk = i) (bookings st) = Some bk"
  shows "\<exists>bk'. find (\<lambda>bk. bk_id bk = i) (bookings st') = Some bk' \<and> status bk' = status'"
  using assms
  by (auto simp: updateBookingStatus_def Let_def find_updateWhere split: if_splits)

lemma createPurchaseOrder_success:
  assumes "createPurchaseOrder st d = (Inr r, st')"
  shows "\<exists>bk bb. getBookingById st' (p_bookingId d) = Some (bk, bb) \<and> status bk = ''po_generated''"
proof -
  from assms obtain b0 bb0 where g: "getBookingById st (p_bookingId d) = Some (b0, bb0)"
    by (auto simp: createPurchaseOrder_def split: option.splits)
  then have f0: "find (\<lambda>bk. bk_id bk = p_bookingId d) (bookings st) = Some b0"
    by (auto simp: getBookingById_def split: option.splits)
  obtain ref st1 where s: "getNextSequence st SeqPO = (ref, st1)"
    by (cases "getNextSequence st SeqPO")
  from getNextSequence_frame [OF s] f0
  have f1: "find (\<lambda>bk. bk_id bk = p_bookingId d) (bookings st1) = Some b0"
    by simp
  from assms g s f1 have "\<exists>bk'. find (\<lambda>bk. bk_id bk = p_bookingId d) (bookings st') = Some bk'
      \<and> status bk' = ''po_generated''"
    by (auto simp: createPurchaseOrder_def Let_def split: if_splits prod.splits sum.splits
        intro!: updateBookingStatus_sets)
  then show ?thesis
    by (auto simp: getBookingById_def)
qed

text \<open>
  C7. \<^verbatim>\<open>createPurchaseOrder\<close> fails with "Booking not found" when the booking does not
  exist; fails with "Purchase order already exists for this booking" when the booking
  has a purchase order; fails when the status of the booking is not one of completed,
  confirmed, active; every such failure leaves the store unchanged. When it succeeds,
  the booking is found afterwards with status \<^verbatim>\<open>po_generated\<close>.
\<close>

theorem createPurchaseOrder_checks:
  "(getBookingById st (p_bookingId d) = None
      \<longrightarrow> createPurchaseOrder st d = (Inl BookingNotFound, st))
   \<and> (\<forall>bk bb. getBookingById st (p_bookingId d) = Some (bk, bb)
         \<and> getPurchaseOrderByBookingId st (p_bookingId d) \<noteq> None
      \<longrightarrow> createPurchaseOrder st d = (Inl PurchaseOrderExists, st))
   \<and> (\<forall>bk bb. getBookingById st (p_bookingId d) = Some (bk, bb)
         \<and> status bk \<notin> {''completed'', ''confirmed'', ''active''}
      \<longrightarrow> (\<exists>e. createPurchaseOrder st d = (Inl e, st)
             \<and> e \<in> {PurchaseOrderExists, CannotGeneratePO (status bk)}))
   \<and> (\<forall>r st'. createPurchaseOrder st d = (Inr r, st')
      \<longrightarrow> (\<exists>bk bb. getBookingById st' (p_bookingId d) = Some (bk, bb)
             \<and> status bk = ''po_generated''))"
proof (intro conjI allI impI)
  assume "getBookingById st (p_bookingId d) = None"
  then show "createPurchaseOrder st d = (Inl BookingNotFound, st)"
    by (simp add: createPurchaseOrder_def)
next
  fix bk bb
  assume "getBookingById st (p_bookingId d) = Some (bk, bb)
         \<and> getPurchaseOrderByBookingId st (p_bookingId d) \<noteq> None"
  then show "createPurchaseOrder st d = (Inl PurchaseOrderExists, st)"
    by (auto simp: createPurchaseOrder_def)
next
  fix bk bb
  assume "getBookingById st (p_bookingId d) = Some (bk, bb)
         \<and> status bk \<notin> {''completed'', ''confirmed'', ''active''}"
  then show "\<exists>e. createPurchaseOrder st d = (Inl e, st)
             \<and> e \<in> {PurchaseOrderExists, CannotGeneratePO (status bk)}"
    by (auto simp: createPurchaseOrder_def poStatuses_def)
next
  fix r st'
  assume "createPurchaseOrder st d = (Inr r, st')"
  then show "\<exists>bk bb. getBookingById st' (p_bookingId d) = Some (bk, bb)
             \<and> status bk = ''po_generated''"
    by (rule createPurchaseOrder_success)
qed


text \<open>
  On the sample store: there is no booking 999; booking D has a purchase order; booking
  A is only created; booking B is confirmed, its purchase order is created and B becomes
  \<^verbatim>\<open>po_generated\<close>.
\<close>

theorem createPurchaseOrder_checks_witness:
  "getBookingById sampleDb (p_bookingId (poDto 999)) = None
   \<and> createPurchaseOrder sampleDb (poDto 999) = (Inl BookingNotFound, sampleDb)
   \<and> getBookingById sampleDb (p_bookingId (poDto 13)) = Some (bookingD, Some billboardX)
   \<and> getPurchaseOrderByBookingId sampleDb (p_bookingId (poDto 13)) \<noteq> None
   \<and> createPurchaseOrder sampleDb (poDto 13) = (Inl PurchaseOrderExists, sampleDb)
   \<and> getBookingById sampleDb (p_bookingId (poDto 10)) = Some (bookingA, Some billboardX)
   \<and> status bookingA \<notin> {''completed'', ''confirmed'', ''active''}
   \<and> (\<exists>e. createPurchaseOrder sampleDb (poDto 10) = (Inl e, sampleDb))
   \<and> (\<exists>r st' bk bb. createPurchaseOrder sampleDb (poDto 11) = (Inr r, st')
          \<and> getBookingById st' (p_bookingId (poDto 11)) = Some (bk, bb)
          \<and> status bk = ''po_generated'')"
proof -
  have n: "getBookingById sampleDb (p_bookingId (poDto 999)) = None"
    and d: "getBookingById sampleDb (p_bookingId (poDto 13)) = Some (bookingD, Some billboardX)"
    and p: "getPurchaseOrderByBookingId sampleDb (p_bookingId (poDto 13)) \<noteq> None"
    and a: "getBookingById sampleDb (p_bookingId (poDto 10)) = Some (bookingA, Some billboardX)"
    and s: "status bookingA \<notin> {''completed'', ''confirmed'', ''active''}"
    by (simp_all add: getBookingById_def getPurchaseOrderByBookingId_def poDto_def sample_defs)
  obtain r st' where c: "createPurchaseOrder sampleDb (poDto 11) = (Inr r, st')"
    by (simp add: createPurchaseOrder_def getBookingById_def getPurchaseOrderByBookingId_def
        poStatuses_def getNextSequence_def updateBookingStatus_def validStatuses_def
        poDto_def sample_defs Let_def split: prod.splits)
  note t = createPurchaseOrder_checks
  from t [of sampleDb "poDto 999"] n
  have 1: "createPurchaseOrder sampleDb (poDto 999) = (Inl BookingNotFound, sampleDb)"
    by blast
  from t [of sampleDb "poDto 13"] d p
  have 2: "createPurchaseOrder sampleDb (poDto 13) = (Inl PurchaseOrderExists, sampleDb)"
    by blast
  from t [of sampleDb "poDto 10"] a s
  have 3: "\<exists>e. createPurchaseOrder sampleDb (poDto 10) = (Inl e, sampleDb)"
    by blast
  from t [of sampleDb "poDto 11"] c
  have 4: "\<exists>bk bb. getBookingById st' (p_bookingId (poDto 11)) = Some (bk, bb)
          \<and> status bk = ''po_generated''"
    by blast
  show ?thesis using n d p a s 1 2 3 4 c by blast
qed

section \<open>Pro-rata settlement\<close>













text \<open>
  The rounding to a double: the exponent found from the bit lengths is the binary
  exponent, the result is within half a unit in the last place of the number rounded,
  and an integer below \<open>2\<^sup>5\<^sup>3\<close> in magnitude is its own double.
\<close>

lemma roundHalfEven_near: "\<bar>of_int (roundHalfEven q) - q\<bar> \<le> 1 / 2"
proof -
  define f where "f = \<lfloor>q\<rfloor>"
  have a: "of_int f \<le> q" and b: "q < of_int f + 1"
    unfolding f_def using floor_correct [of q] by simp_all
  show ?thesis
    unfolding roundHalfEven_def Let_def f_def [symmetric]
    using a b by (auto simp: abs_le_iff)
qed

lemma bitlen_powi_bounds:
  assumes "0 < p"
  shows "(2::rat) powi (bitlen p - 1) \<le> of_int p" and "of_int p < (2::rat) powi bitlen p"
proof -
  from bitlen_bounds [OF assms] have l: "2 ^ nat (bitlen p - 1) \<le> p" and u: "p < 2 ^ nat (bitlen p)"
    by simp_all
  have pos: "1 \<le> bitlen p"
    using assms bitlen_nonneg [of p] bitlen_eq_zero_iff [of p] by linarith
  from l have "(of_int (2 ^ nat (bitlen p - 1)) :: rat) \<le> of_int p"
    by (simp only: of_int_le_iff)
  then show "(2::rat) powi (bitlen p - 1) \<le> of_int p"
    using pos by (simp add: power_int_def)
  from u have "(of_int p :: rat) < of_int (2 ^ nat (bitlen p))"
    by (simp only: of_int_less_iff)
  then show "of_int p < (2::rat) powi bitlen p"
    using pos by (simp add: power_int_def)
qed


lemma exponentOf_bounds:
  assumes "x \<noteq> 0"
  shows "2 powi exponentOf x \<le> \<bar>x\<bar>" and "\<bar>x\<bar> < 2 powi (exponentOf x + 1)"
proof -
  obtain p q where pq: "quotient_of \<bar>x\<bar> = (p, q)"
    by (cases "quotient_of \<bar>x\<bar>")
  have q: "0 < q"
    using pq by (rule quotient_of_denom_pos)
  have x: "\<bar>x\<bar> = of_int p / of_int q"
    using pq by (rule quotient_of_div)
  have "0 < \<bar>x\<bar>"
    using assms by simp
  then have p: "0 < p"
    using q unfolding x by (simp add: zero_less_divide_iff)
  define a where "a = bitlen p"
  define b where "b = bitlen q"
  define k where "k = a - b"
  note pb = bitlen_powi_bounds [OF p, folded a_def]
  note qb = bitlen_powi_bounds [OF q, folded b_def]
  have qr: "(0::rat) < of_int q"
    using q by simp
  have lower: "(2::rat) powi (k - 1) < \<bar>x\<bar>"
  proof -
    have "(2::rat) powi (k - 1) = 2 powi (a - 1) / 2 powi b"
      by (simp add: k_def power_int_diff [symmetric] algebra_simps)
    also have "\<dots> < 2 powi (a - 1) / of_int q"
      using qb(2) qr by (intro divide_strict_left_mono) simp_all
    also have "\<dots> \<le> of_int p / of_int q"
      using pb(1) qr by (intro divide_right_mono) simp_all
    finally show ?thesis
      by (simp only: x)
  qed
  have upper: "\<bar>x\<bar> < (2::rat) powi (k + 1)"
  proof -
    have "of_int p / of_int q < (2::rat) powi a / of_int q"
      using pb(2) qr by (intro divide_strict_right_mono) simp_all
    also have "\<dots> \<le> 2 powi a / 2 powi (b - 1)"
      using qb(1) qr by (intro divide_left_mono) (simp_all add: zero_less_power_int)
    also have "\<dots> = 2 powi (k + 1)"
      by (simp add: k_def power_int_diff [symmetric] algebra_simps)
    finally show ?thesis
      by (simp only: x)
  qed
  have e: "exponentOf x = (if 2 powi k \<le> \<bar>x\<bar> then k else k - 1)"
    by (simp add: exponentOf_def pq k_def a_def b_def)
  show "2 powi exponentOf x \<le> \<bar>x\<bar>"
    unfolding e using lower by (simp add: less_imp_le)
  show "\<bar>x\<bar> < 2 powi (exponentOf x + 1)"
    unfolding e using upper by (simp add: not_le)
qed


lemma exponentOf_unique:
  assumes "x \<noteq> 0" and "2 powi e \<le> \<bar>x\<bar>" and "\<bar>x\<bar> < 2 powi (e + 1)"
  shows "exponentOf x = e"
proof -
  note b = exponentOf_bounds [OF assms(1)]
  have "\<not> e + 1 \<le> exponentOf x"
  proof
    assume "e + 1 \<le> exponentOf x"
    then have "(2::rat) powi (e + 1) \<le> 2 powi exponentOf x"
      by (intro power_int_increasing) simp_all
    with b(1) assms(3) show False by simp
  qed
  moreover have "\<not> exponentOf x + 1 \<le> e"
  proof
    assume "exponentOf x + 1 \<le> e"
    then have "(2::rat) powi (exponentOf x + 1) \<le> 2 powi e"
      by (intro power_int_increasing) simp_all
    with b(2) assms(2) show False by simp
  qed
  ultimately show ?thesis by simp
qed


lemma roundToDouble_near:
  assumes "roundToDouble x = Finite y"
  shows "\<bar>y - x\<bar> \<le> 2 powi (max (exponentOf x) (- 1022) - 53)"
proof (cases "x = 0")
  case True
  with assms show ?thesis
    by (simp add: roundToDouble_def)
next
  case False
  define e where "e = max (exponentOf x) (- 1022)"
  define ulp where "ulp = (2::rat) powi (e - 52)"
  define n where "n = roundHalfEven (\<bar>x\<bar> / ulp)"
  have up: "0 < ulp"
    by (simp add: ulp_def)
  have half: "ulp / 2 = 2 powi (e - 53)"
    unfolding ulp_def by (simp add: power_int_diff)
  from assms False have y: "y = (if x > 0 then of_int n * ulp else - (of_int n * ulp))"
    by (simp add: roundToDouble_def Let_def e_def ulp_def n_def split: if_splits)
  have "\<bar>of_int n - \<bar>x\<bar> / ulp\<bar> \<le> 1 / 2"
    unfolding n_def by (rule roundHalfEven_near)
  then have "\<bar>of_int n - \<bar>x\<bar> / ulp\<bar> * ulp \<le> 1 / 2 * ulp"
    using up by (intro mult_right_mono) simp_all
  moreover have "\<bar>of_int n - \<bar>x\<bar> / ulp\<bar> * ulp = \<bar>of_int n * ulp - \<bar>x\<bar>\<bar>"
  proof -
    have "(of_int n - \<bar>x\<bar> / ulp) * ulp = of_int n * ulp - \<bar>x\<bar>"
      using up by (simp add: field_simps)
    then have "\<bar>of_int n * ulp - \<bar>x\<bar>\<bar> = \<bar>of_int n - \<bar>x\<bar> / ulp\<bar> * \<bar>ulp\<bar>"
      by (simp only: abs_mult [symmetric])
    then show ?thesis
      using up by simp
  qed
  ultimately have d: "\<bar>of_int n * ulp - \<bar>x\<bar>\<bar> \<le> ulp / 2"
    by simp
  have "\<bar>y - x\<bar> = \<bar>of_int n * ulp - \<bar>x\<bar>\<bar>"
    using False by (cases "x > 0") (simp_all add: y abs_minus_commute)
  with d show ?thesis
    unfolding half e_def by simp
qed










lemma double_tenth_times_three:
  "jsTimes (parseFloat (1 / 10)) (Finite 3) = Finite (1351079888211149 / 4503599627370496)"
  by code_simp

lemma double_percentage_201_160:
  "jsTimes (jsDivide (jsMinus (jsTimes (parseFloat 201) (Finite 1)) (parseFloat 160))
              (parseFloat 160)) (Finite 100)
     = Finite (7212796278210559 / 281474976710656)"
  by code_simp

lemma toFixed_201_160:
  "toFixed numberToString (Finite (7212796278210559 / 281474976710656)) = ''25.62''"
  by code_simp










section \<open>Campaign creation\<close>








end
